theory Spec2Isabelle
  imports Main
begin

section \<open>Machine integers\<close>

text \<open>
  The driver computes with \<^verbatim>\<open>int64_t\<close> and narrows two tags to \<^verbatim>\<open>int\<close>.
  Values are modelled as \<^typ>\<open>int\<close>; the two sums that can leave the 64-bit range
  (\<^verbatim>\<open>k+1+lookahead\<close>, \<^verbatim>\<open>j + A_mt\<close>, \<^verbatim>\<open>num_arrays_two + lookahead\<close>) and the
  narrowing \<^verbatim>\<open>int tag_k = k\<close> are written with the two's complement wrap-around.
\<close>

definition wrap64 :: "int \<Rightarrow> int" where
  "wrap64 x = (x + 2 ^ 63) mod 2 ^ 64 - 2 ^ 63"

definition wrap32 :: "int \<Rightarrow> int" where
  "wrap32 x = (x + 2 ^ 31) mod 2 ^ 32 - 2 ^ 31"

definition add64 :: "int \<Rightarrow> int \<Rightarrow> int" where
  "add64 a b = wrap64 (a + b)"

text \<open>The quotient of \<^verbatim>\<open>a / b\<close> in C++ is rounded towards zero.\<close>

definition int_div :: "int \<Rightarrow> int \<Rightarrow> int" where
  "int_div a b =
     (if (a < 0) = (b < 0) then \<bar>a\<bar> div \<bar>b\<bar> else - (\<bar>a\<bar> div \<bar>b\<bar>))"

section \<open>Enumerations, options and the matrix interface\<close>

datatype Target = Host | HostTask | HostNest | HostBatch | Devices

datatype Option = Lookahead | InnerBlocking | MaxPanelThreads | Target

text \<open>
  \<^verbatim>\<open>Options\<close> is a \<^verbatim>\<open>std::map<Option, OptionValue>\<close>; the driver reads the
  \<^verbatim>\<open>i_\<close> member of every value it looks up.
\<close>

type_synonym Options = "Option \<Rightarrow> int option"

datatype Layout = ColMajor | RowMajor
datatype Side = Left | Right
datatype Uplo = Upper | Lower | General
datatype Diag = Unit | NonUnit

text \<open>\<^verbatim>\<open>A.sub(i1, i2, j1, j2)\<close>: the view on tile rows i1..i2 and tile columns j1..j2.\<close>

datatype view = sub int int int int

text \<open>\<^verbatim>\<open>TriangularMatrix<scalar_t>(uplo, diag, Akk)\<close>.\<close>

datatype triangular = TriangularMatrix Uplo Diag view

text \<open>
  What the driver reads of the matrix: the tile counts \<^verbatim>\<open>A.mt()\<close> and \<^verbatim>\<open>A.nt()\<close>
  and, in the device specialization, \<^verbatim>\<open>A.tileIsLocal(i, j)\<close> and the devices that
  \<^verbatim>\<open>getLocalDevices\<close> inserts for a view. The entries of the matrix, of scalar
  type \<open>'s\<close>, belong to it as well; the driver passes views of them to the kernels
  and never reads one itself.
\<close>

record 's Matrix =
  mt :: int
  nt :: int
  tileIsLocal :: "int \<Rightarrow> int \<Rightarrow> bool"
  getLocalDevices :: "view \<Rightarrow> int list"
  entries :: "int \<Rightarrow> int \<Rightarrow> 's"

text \<open>
  The calls the driver makes on the matrix and on the internal kernels, with the
  arguments the source passes. An argument the source leaves to the callee's
  default is \<open>None\<close>. The scalars \<^verbatim>\<open>scalar_t(1.0)\<close> and \<^verbatim>\<open>scalar_t(-1.0)\<close>
  are the integers 1 and -1.
\<close>

datatype call =
    internal_getrf_nopiv Target view int int
  | internal_trsm Target Side int triangular view "int option" "Layout option" "int option"
  | internal_gemm Target int view view int view Layout int "int option"
  | listBcast "Target option" "(int \<times> int \<times> view list) list" Layout int "int option" "bool option"
  | listBcastMT "Target option" "(int \<times> int \<times> view list \<times> int) list" Layout "int option" "bool option"
  | tileBcast int int view Layout int
  | tileUpdateOrigin int int
  | tileUnsetHold int int int
  | tileRelease int int int
  | tileUpdateAllOrigin
  | clearWorkspace
  | allocateBatchArrays int int
  | reserveDeviceWorkspace
  | omp_set_nested int

section \<open>Tasks and their dependences\<close>

text \<open>
  The tokens \<^verbatim>\<open>column[.]\<close>, \<^verbatim>\<open>diag[.]\<close> and \<^verbatim>\<open>mpi_bandwidth\<close> and the
  \<^verbatim>\<open>depend\<close> clauses of the task pragmas.
\<close>

datatype token = column int | diag int | mpi_bandwidth

datatype dependence = depend_in token | depend_out token | depend_inout token

record task =
  depends :: "dependence list"
  priority :: "int option"
  body :: "call list"

text \<open>
  What the master thread does, in program order: it submits a task, waits for all
  tasks, or makes a call itself.
\<close>

datatype event = omp_task task | omp_taskwait | master call

text \<open>\<^verbatim>\<open>for (x = lo; x < hi; ++x)\<close> collecting what each round appends.\<close>

definition for_range :: "int \<Rightarrow> int \<Rightarrow> (int \<Rightarrow> 'a list) \<Rightarrow> 'a list" where
  "for_range lo hi f = concat (map f [lo..hi - 1])"

section \<open>The driver, generic specialization\<close>

text \<open>
  \<^verbatim>\<open>internal::specialization::getrf_nopiv\<close> for any target. Each task pragma of
  the loop body is one definition; \<open>A_mt\<close> and \<open>A_nt\<close> are \<^term>\<open>mt A\<close> and
  \<^term>\<open>nt A\<close>, \<^verbatim>\<open>priority_one\<close> is 1 and \<^verbatim>\<open>priority_zero\<close> is 0.
\<close>

definition panel_task :: "'s Matrix \<Rightarrow> int \<Rightarrow> int \<Rightarrow> task" where
  "panel_task A ib k =
     \<lparr>depends = [depend_inout (column k), depend_out (diag k)],
      priority = Some 1,
      body =
        [internal_getrf_nopiv HostTask (sub k k k k) ib 1,
         listBcast None
           [(k, k, [sub (k + 1) (mt A - 1) k k, sub k k (k + 1) (nt A - 1)])]
           ColMajor (wrap32 k) None None]\<rparr>"

definition panel_trsm_task :: "'s Matrix \<Rightarrow> int \<Rightarrow> task" where
  "panel_trsm_task A k =
     \<lparr>depends = [depend_inout (column k), depend_in (diag k)],
      priority = Some 1,
      body =
        [internal_trsm HostTask Right 1 (TriangularMatrix Upper NonUnit (sub k k k k))
           (sub (k + 1) (mt A - 1) k k) (Some 1) None None]\<rparr>"

definition panel_bcast_task :: "'s Matrix \<Rightarrow> int \<Rightarrow> task" where
  "panel_bcast_task A k =
     \<lparr>depends = [depend_inout (column k), depend_inout mpi_bandwidth],
      priority = Some 1,
      body =
        [listBcastMT None
           (for_range (k + 1) (mt A) (\<lambda>i. [(i, k, [sub i i (k + 1) (nt A - 1)], i)]))
           ColMajor None None]\<rparr>"

definition lookahead_trsm_task :: "'s Matrix \<Rightarrow> int \<Rightarrow> int \<Rightarrow> task" where
  "lookahead_trsm_task A k j =
     \<lparr>depends = [depend_in (diag k), depend_inout (column j)],
      priority = Some 1,
      body =
        [internal_trsm HostTask Left 1 (TriangularMatrix Lower Unit (sub k k k k))
           (sub k k j j) (Some 1) None None,
         tileBcast k j (sub (k + 1) (mt A - 1) j j) ColMajor (wrap32 j)]\<rparr>"

definition lookahead_gemm_task :: "'s Matrix \<Rightarrow> int \<Rightarrow> int \<Rightarrow> task" where
  "lookahead_gemm_task A k j =
     \<lparr>depends = [depend_in (column k), depend_inout (column j)],
      priority = Some 1,
      body =
        [internal_gemm HostTask (- 1) (sub (k + 1) (mt A - 1) k k) (sub k k j j)
           1 (sub (k + 1) (mt A - 1) j j) ColMajor 1 None]\<rparr>"

text \<open>The trailing tasks; \<open>kl\<close> is the value of \<^verbatim>\<open>k+1+lookahead\<close>.\<close>

definition trailing_trsm_task :: "'s Matrix \<Rightarrow> int \<Rightarrow> int \<Rightarrow> task" where
  "trailing_trsm_task A k kl =
     \<lparr>depends =
        [depend_in (diag k), depend_inout (column kl), depend_inout (column (nt A - 1))],
      priority = None,
      body =
        [internal_trsm HostTask Left 1 (TriangularMatrix Lower Unit (sub k k k k))
           (sub k k kl (nt A - 1)) None None None]\<rparr>"

definition trailing_bcast_task :: "'s Matrix \<Rightarrow> int \<Rightarrow> int \<Rightarrow> task" where
  "trailing_bcast_task A k kl =
     \<lparr>depends =
        [depend_inout (column kl), depend_inout (column (nt A - 1)),
         depend_inout mpi_bandwidth],
      priority = None,
      body =
        [listBcastMT None
           (for_range kl (nt A)
              (\<lambda>j. [(k, j, [sub (k + 1) (mt A - 1) j j], add64 j (mt A))]))
           ColMajor None None]\<rparr>"

definition trailing_gemm_task :: "Target \<Rightarrow> 's Matrix \<Rightarrow> int \<Rightarrow> int \<Rightarrow> task" where
  "trailing_gemm_task target A k kl =
     \<lparr>depends =
        [depend_in (column k), depend_inout (column kl), depend_inout (column (nt A - 1))],
      priority = None,
      body =
        [internal_gemm target (- 1) (sub (k + 1) (mt A - 1) k k) (sub k k kl (nt A - 1))
           1 (sub (k + 1) (mt A - 1) kl (nt A - 1)) ColMajor 0 None]\<rparr>"

text \<open>One round of the loop over \<open>k\<close>.\<close>

definition iteration :: "Target \<Rightarrow> 's Matrix \<Rightarrow> int \<Rightarrow> int \<Rightarrow> int \<Rightarrow> event list" where
  "iteration target A ib lookahead k =
     [omp_task (panel_task A ib k),
      omp_task (panel_trsm_task A k),
      omp_task (panel_bcast_task A k)]
     @ for_range (k + 1) (min (add64 (k + 1) lookahead) (nt A))
         (\<lambda>j. [omp_task (lookahead_trsm_task A k j), omp_task (lookahead_gemm_task A k j)])
     @ (if add64 (k + 1) lookahead < nt A
        then [omp_task (trailing_trsm_task A k (add64 (k + 1) lookahead)),
              omp_task (trailing_bcast_task A k (add64 (k + 1) lookahead)),
              omp_task (trailing_gemm_task target A k (add64 (k + 1) lookahead))]
        else [])"

definition getrf_nopiv_generic ::
  "Target \<Rightarrow> 's Matrix \<Rightarrow> int \<Rightarrow> int \<Rightarrow> int \<Rightarrow> event list" where
  "getrf_nopiv_generic target A ib max_panel_threads lookahead =
     [master (omp_set_nested 1)]
     @ for_range 0 (min (mt A) (nt A)) (iteration target A ib lookahead)
     @ [omp_taskwait, master tileUpdateAllOrigin]
     @ [master clearWorkspace]"

section \<open>The driver, device specialization\<close>

text \<open>
  The overload for \<^verbatim>\<open>Target::Devices\<close>. \<^verbatim>\<open>life_factor_one\<close> is 1,
  \<^verbatim>\<open>is_shared\<close> is \<^verbatim>\<open>lookahead > 0\<close>, and the last argument of the
  kernels is the queue index.
\<close>

definition dev_panel_task :: "'s Matrix \<Rightarrow> int \<Rightarrow> int \<Rightarrow> task" where
  "dev_panel_task A ib k =
     \<lparr>depends = [depend_inout (column k), depend_out (diag k)],
      priority = Some 1,
      body =
        [internal_getrf_nopiv HostTask (sub k k k k) ib 1,
         listBcast (Some Devices)
           [(k, k, [sub (k + 1) (mt A - 1) k k, sub k k (k + 1) (nt A - 1)])]
           ColMajor (wrap32 k) (Some 1) (Some True)]\<rparr>"

definition dev_panel_trsm_task :: "'s Matrix \<Rightarrow> int \<Rightarrow> task" where
  "dev_panel_trsm_task A k =
     \<lparr>depends = [depend_inout (column k), depend_in (diag k)],
      priority = Some 1,
      body =
        [internal_trsm Devices Right 1 (TriangularMatrix Upper NonUnit (sub k k k k))
           (sub (k + 1) (mt A - 1) k k) (Some 1) (Some ColMajor) (Some 0)]\<rparr>"

definition dev_panel_bcast_task :: "'s Matrix \<Rightarrow> int \<Rightarrow> int \<Rightarrow> task" where
  "dev_panel_bcast_task A lookahead k =
     \<lparr>depends = [depend_inout (column k), depend_inout mpi_bandwidth],
      priority = Some 1,
      body =
        [listBcastMT (Some Devices)
           (for_range (k + 1) (mt A) (\<lambda>i. [(i, k, [sub i i (k + 1) (nt A - 1)], i)]))
           ColMajor (Some 1) (Some (0 < lookahead))]\<rparr>"

definition dev_lookahead_trsm_task :: "'s Matrix \<Rightarrow> int \<Rightarrow> int \<Rightarrow> task" where
  "dev_lookahead_trsm_task A k j =
     \<lparr>depends = [depend_in (diag k), depend_inout (column j)],
      priority = Some 1,
      body =
        [internal_trsm Devices Left 1 (TriangularMatrix Lower Unit (sub k k k k))
           (sub k k j j) (Some 1) (Some ColMajor) (Some (j - k + 1)),
         tileBcast k j (sub (k + 1) (mt A - 1) j j) ColMajor (wrap32 j)]\<rparr>"

definition dev_lookahead_gemm_task :: "'s Matrix \<Rightarrow> int \<Rightarrow> int \<Rightarrow> task" where
  "dev_lookahead_gemm_task A k j =
     \<lparr>depends = [depend_in (column k), depend_inout (column j)],
      priority = Some 1,
      body =
        [internal_gemm Devices (- 1) (sub (k + 1) (mt A - 1) k k) (sub k k j j)
           1 (sub (k + 1) (mt A - 1) j j) ColMajor 1 (Some (j - k + 1))]\<rparr>"

definition dev_trailing_trsm_task :: "'s Matrix \<Rightarrow> int \<Rightarrow> int \<Rightarrow> task" where
  "dev_trailing_trsm_task A k kl =
     \<lparr>depends =
        [depend_in (diag k), depend_inout (column kl), depend_inout (column (nt A - 1))],
      priority = None,
      body =
        [internal_trsm Devices Left 1 (TriangularMatrix Lower Unit (sub k k k k))
           (sub k k kl (nt A - 1)) (Some 0) (Some ColMajor) (Some 1)]\<rparr>"

definition dev_trailing_bcast_task :: "'s Matrix \<Rightarrow> int \<Rightarrow> int \<Rightarrow> task" where
  "dev_trailing_bcast_task A k kl =
     \<lparr>depends =
        [depend_inout (column kl), depend_inout (column (nt A - 1)),
         depend_inout mpi_bandwidth],
      priority = None,
      body =
        [listBcastMT (Some Devices)
           (for_range kl (nt A)
              (\<lambda>j. [(k, j, [sub (k + 1) (mt A - 1) j j], add64 j (mt A))]))
           ColMajor None None]\<rparr>"

definition dev_trailing_gemm_task :: "'s Matrix \<Rightarrow> int \<Rightarrow> int \<Rightarrow> task" where
  "dev_trailing_gemm_task A k kl =
     \<lparr>depends =
        [depend_in (column k), depend_inout (column kl), depend_inout (column (nt A - 1))],
      priority = None,
      body =
        [internal_gemm Devices (- 1) (sub (k + 1) (mt A - 1) k k) (sub k k kl (nt A - 1))
           1 (sub (k + 1) (mt A - 1) kl (nt A - 1)) ColMajor 0 (Some 1)]\<rparr>"

text \<open>
  \<^verbatim>\<open>std::set<int> dev_set\<close> filled by \<^verbatim>\<open>getLocalDevices\<close> of the given views and
  then iterated: the devices in ascending order, each once.
\<close>

definition dev_set :: "'s Matrix \<Rightarrow> view list \<Rightarrow> int list" where
  "dev_set A vs = sort (remdups (concat (map (getLocalDevices A) vs)))"

definition dev_release_diag_task :: "'s Matrix \<Rightarrow> int \<Rightarrow> task" where
  "dev_release_diag_task A k =
     \<lparr>depends = [depend_inout (diag k)],
      priority = None,
      body =
        (if tileIsLocal A k k \<and> k + 1 < nt A
         then concat (map (\<lambda>device. [tileUnsetHold k k device, tileRelease k k device])
                (dev_set A [sub (k + 1) (mt A - 1) k k, sub k k (k + 1) (nt A - 1)]))
         else [])\<rparr>"

definition dev_release_column_task :: "'s Matrix \<Rightarrow> int \<Rightarrow> task" where
  "dev_release_column_task A k =
     \<lparr>depends = [depend_inout (column k)],
      priority = None,
      body =
        for_range (k + 1) (nt A)
          (\<lambda>i. if tileIsLocal A i k
                then tileUpdateOrigin i k
                     # concat (map (\<lambda>device. [tileUnsetHold i k device, tileRelease i k device])
                         (dev_set A [sub i i (k + 1) (mt A - 1)]))
                else [])\<rparr>"

definition dev_iteration :: "'s Matrix \<Rightarrow> int \<Rightarrow> int \<Rightarrow> int \<Rightarrow> event list" where
  "dev_iteration A ib lookahead k =
     [omp_task (dev_panel_task A ib k),
      omp_task (dev_panel_trsm_task A k),
      omp_task (dev_panel_bcast_task A lookahead k)]
     @ for_range (k + 1) (min (add64 (k + 1) lookahead) (nt A))
         (\<lambda>j. [omp_task (dev_lookahead_trsm_task A k j),
               omp_task (dev_lookahead_gemm_task A k j)])
     @ (if add64 (k + 1) lookahead < nt A
        then [omp_task (dev_trailing_trsm_task A k (add64 (k + 1) lookahead)),
              omp_task (dev_trailing_bcast_task A k (add64 (k + 1) lookahead)),
              omp_task (dev_trailing_gemm_task A k (add64 (k + 1) lookahead))]
        else [])
     @ [omp_task (dev_release_diag_task A k),
        omp_task (dev_release_column_task A k)]"

definition getrf_nopiv_Devices :: "'s Matrix \<Rightarrow> int \<Rightarrow> int \<Rightarrow> int \<Rightarrow> event list" where
  "getrf_nopiv_Devices A ib max_panel_threads lookahead =
     [master (allocateBatchArrays 0 (add64 2 lookahead)), master reserveDeviceWorkspace,
      master (omp_set_nested 1)]
     @ for_range 0 (min (mt A) (nt A)) (dev_iteration A ib lookahead)
     @ [omp_taskwait, master tileUpdateAllOrigin]
     @ [master clearWorkspace]"

text \<open>
  Overload resolution on \<^verbatim>\<open>internal::TargetType<target>\<close>: the device overload
  for \<^verbatim>\<open>Target::Devices\<close>, the generic template otherwise.
\<close>

definition specialization_getrf_nopiv ::
  "Target \<Rightarrow> 's Matrix \<Rightarrow> int \<Rightarrow> int \<Rightarrow> int \<Rightarrow> event list" where
  "specialization_getrf_nopiv target A ib max_panel_threads lookahead =
     (if target = Devices then getrf_nopiv_Devices A ib max_panel_threads lookahead
      else getrf_nopiv_generic target A ib max_panel_threads lookahead)"

section \<open>Option resolution and the entry point\<close>

text \<open>
  The runtime the driver asks: \<^verbatim>\<open>omp_get_max_threads()\<close>, and the integer each
  enumerator of \<^verbatim>\<open>Target\<close> stands for (the enumeration is declared in a header
  that is not part of the sources at hand).
\<close>

record runtime =
  omp_get_max_threads :: int
  Target_code :: "Target \<Rightarrow> int"

text \<open>
  A call either returns, having done the events listed, or is aborted by a failed
  \<^verbatim>\<open>assert\<close> after the events listed. Assertions are enabled: the build flags do
  not define \<^verbatim>\<open>NDEBUG\<close>.
\<close>

datatype outcome = Returned "event list" | Aborted "event list"

datatype error = assertion_failed

text \<open>
  The three \<^verbatim>\<open>try { x = opts.at(...).i_; assert(...); } catch (std::out_of_range&)\<close>
  blocks. A failed assertion aborts and is not caught.
\<close>

definition get_lookahead :: "Options \<Rightarrow> error + int" where
  "get_lookahead opts =
     (case opts Lookahead of
        Some v \<Rightarrow> if 0 \<le> v then Inr v else Inl assertion_failed
      | None \<Rightarrow> Inr 1)"

definition get_ib :: "Options \<Rightarrow> error + int" where
  "get_ib opts =
     (case opts InnerBlocking of
        Some v \<Rightarrow> if 0 \<le> v then Inr v else Inl assertion_failed
      | None \<Rightarrow> Inr 16)"

definition get_max_panel_threads :: "runtime \<Rightarrow> Options \<Rightarrow> error + int" where
  "get_max_panel_threads rt opts =
     (case opts MaxPanelThreads of
        Some v \<Rightarrow>
          if 1 \<le> v \<and> v \<le> omp_get_max_threads rt then Inr v else Inl assertion_failed
      | None \<Rightarrow> Inr (max (int_div (omp_get_max_threads rt) 2) 1))"

text \<open>
  The version with the target as template parameter. The specialization takes
  \<^verbatim>\<open>max_panel_threads\<close> as an \<^verbatim>\<open>int\<close>; every value that reaches it is one that
  \<^verbatim>\<open>omp_get_max_threads()\<close>, an \<^verbatim>\<open>int\<close>, bounds or produces, so the narrowing
  changes nothing.
\<close>

definition getrf_nopiv_target :: "runtime \<Rightarrow> Target \<Rightarrow> 's Matrix \<Rightarrow> Options \<Rightarrow> outcome" where
  "getrf_nopiv_target rt target A opts =
     (case get_lookahead opts of
        Inl e \<Rightarrow> Aborted []
      | Inr lookahead \<Rightarrow>
     (case get_ib opts of
        Inl e \<Rightarrow> Aborted []
      | Inr ib \<Rightarrow>
     (case get_max_panel_threads rt opts of
        Inl e \<Rightarrow> Aborted []
      | Inr max_panel_threads \<Rightarrow>
          Returned (specialization_getrf_nopiv target A ib max_panel_threads lookahead))))"

text \<open>
  The entry point: the target is looked up first and the \<^verbatim>\<open>switch\<close> has no
  default, so a value that is no enumerator's leaves the function without a call.
\<close>

definition getrf_nopiv :: "runtime \<Rightarrow> 's Matrix \<Rightarrow> Options \<Rightarrow> outcome" where
  "getrf_nopiv rt A opts =
     (let target = (case opts Target of Some v \<Rightarrow> v | None \<Rightarrow> Target_code rt HostTask) in
      if target = Target_code rt Host \<or> target = Target_code rt HostTask
        then getrf_nopiv_target rt HostTask A opts
      else if target = Target_code rt HostNest
        then getrf_nopiv_target rt HostNest A opts
      else if target = Target_code rt HostBatch
        then getrf_nopiv_target rt HostBatch A opts
      else if target = Target_code rt Devices
        then getrf_nopiv_target rt Devices A opts
      else Returned [])"

section \<open>The compatibility shims\<close>

text \<open>
  \<^verbatim>\<open>slate_trmm\<close> of the LAPACK-style interface and \<^verbatim>\<open>slate_pposv\<close> and
  \<^verbatim>\<open>slate_planhe\<close> of the ScaLAPACK-style interface. They are glue around
  functions that are not in the sources; those are taken as collaborators.
\<close>

type_synonym ptr = nat

datatype comm = MPI_COMM_WORLD

datatype Op = NoTrans | Trans | ConjTrans

datatype Norm = Norm_One | Norm_Two | Norm_Inf | Norm_Fro | Norm_Max

text \<open>
  Modelled from the spec: the matrix descriptor array, read through the macros
  \<^verbatim>\<open>desc_CTXT\<close>, \<^verbatim>\<open>desc_M\<close>, ... of a header that is not in the sources. It
  encodes context, global rows, global columns, block rows, block columns, row
  source, column source and local leading dimension.
\<close>

record desc =
  desc_CTXT :: int
  desc_M :: int
  desc_N :: int
  desc_MB :: int
  desc_NB :: int
  desc_RSRC :: int
  desc_CSRC :: int
  desc_LLD :: int

text \<open>
  The matrices the shims build, as the constructor calls that build them:
  \<^verbatim>\<open>fromLAPACK\<close> and \<^verbatim>\<open>fromScaLAPACK\<close> of the matrix classes,
  \<^verbatim>\<open>transpose\<close>, \<^verbatim>\<open>conjTranspose\<close> and \<^verbatim>\<open>slate_scalapack_submatrix\<close>.
\<close>

datatype slate_matrix =
    TriangularMatrix_fromLAPACK Uplo Diag int ptr int int int int comm
  | Matrix_fromLAPACK int int ptr int int int int comm
  | HermitianMatrix_fromScaLAPACK Uplo int ptr int int int int comm
  | Matrix_fromScaLAPACK int int ptr int int int int comm
  | transpose_of slate_matrix
  | conjTranspose slate_matrix
  | slate_scalapack_submatrix int int slate_matrix int int desc

text \<open>A call of a core driver: \<^verbatim>\<open>slate::trmm\<close>, \<^verbatim>\<open>slate::posv\<close>, \<^verbatim>\<open>slate::norm\<close>.\<close>

datatype 's driver_call =
    trmm Side 's slate_matrix slate_matrix Options
  | posv slate_matrix slate_matrix Options
  | norm Norm slate_matrix Options

text \<open>
  The process-wide state the shims touch: the BLAS thread count, whether MPI is
  initialized and what was printed. \<open>driver_calls\<close> is a record kept for the proofs:
  every driver call made, with the BLAS thread count in force when it was made.
\<close>

record 's process =
  num_blas_threads :: int
  mpi_initialized :: bool
  printed :: "string list"
  driver_calls :: "('s driver_call \<times> int) list"

text \<open>
  The collaborators: the configured verbosity, target and block size (the function
  statics), the integer of a target, the character conversions of the BLAS and LAPACK
  wrappers (\<open>None\<close> when the conversion throws), the grid-info callback giving
  \<open>(nprow, npcol, myrow, mycol)\<close> for a context, and the driver: its result, or
  \<open>None\<close> when it throws.
\<close>

record ('s, 'r) collaborators =
  slate_set_verbose :: bool
  slate_set_target :: Target
  slate_set_nb :: int
  Target_to_int :: "Target \<Rightarrow> int"
  char2side :: "char \<Rightarrow> Side option"
  char2uplo :: "char \<Rightarrow> Uplo option"
  char2op :: "char \<Rightarrow> Op option"
  char2diag :: "char \<Rightarrow> Diag option"
  char2norm :: "char \<Rightarrow> Norm option"
  Cblacs_gridinfo :: "int \<Rightarrow> int \<times> int \<times> int \<times> int"
  slate_driver :: "'s driver_call \<Rightarrow> 'r option"

text \<open>A shim returns, or an exception of a collaborator leaves it.\<close>

datatype 'a exit = Return 'a | Throw

text \<open>
  What a shim hands back: the function's return value (\<open>None\<close> for \<^verbatim>\<open>void\<close>) and
  the value it stores through its \<^verbatim>\<open>int* info\<close> parameter (\<open>None\<close> when it has no
  such parameter).
\<close>

record 'r outputs =
  retval :: "'r option"
  info :: "int option"

text \<open>\<^verbatim>\<open>str[0]\<close> of a C string: its first character, the terminator if it is empty.\<close>

definition str0 :: "string \<Rightarrow> char" where
  "str0 str = (case str of [] \<Rightarrow> CHR 0x00 | ch # rest \<Rightarrow> ch)"

text \<open>
  Modelled from the spec: \<^verbatim>\<open>slate_set_num_blas_threads\<close> and
  \<^verbatim>\<open>slate_lapack_set_num_blas_threads\<close> (headers not in the sources) set the
  process-wide BLAS thread count and return the count that was in force.
\<close>

definition slate_set_num_blas_threads :: "int \<Rightarrow> 's process \<Rightarrow> int \<times> 's process" where
  "slate_set_num_blas_threads n s = (num_blas_threads s, s\<lparr>num_blas_threads := n\<rparr>)"

definition logprintf :: "string \<Rightarrow> 's process \<Rightarrow> 's process" where
  "logprintf line s = s\<lparr>printed := printed s @ [line]\<rparr>"

text \<open>The driver is called under the thread count in force; the call is recorded.\<close>

definition call_driver ::
  "('s, 'r) collaborators \<Rightarrow> 's driver_call \<Rightarrow> 's process \<Rightarrow> 'r option \<times> 's process" where
  "call_driver c dc s =
     (slate_driver c dc, s\<lparr>driver_calls := driver_calls s @ [(dc, num_blas_threads s)]\<rparr>)"

text \<open>
  \<^verbatim>\<open>slate_trmm\<close>. The timing of the verbose line is left out; the line itself is
  abbreviated.
\<close>

definition slate_trmm ::
  "('s, 'r) collaborators \<Rightarrow> string \<Rightarrow> string \<Rightarrow> string \<Rightarrow> string \<Rightarrow> int \<Rightarrow> int \<Rightarrow> 's
   \<Rightarrow> ptr \<Rightarrow> int \<Rightarrow> ptr \<Rightarrow> int \<Rightarrow> 's process \<Rightarrow> 'r outputs exit \<times> 's process" where
  "slate_trmm c sidestr uplostr transastr diagstr m n alpha a lda b ldb s0 =
     (let s1 = (if \<not> mpi_initialized s0 then s0\<lparr>mpi_initialized := True\<rparr> else s0);
          (saved_num_blas_threads, s2) = slate_set_num_blas_threads 1 s1
      in case char2side c (str0 sidestr) of None \<Rightarrow> (Throw, s2) | Some side \<Rightarrow>
        (case char2uplo c (str0 uplostr) of None \<Rightarrow> (Throw, s2) | Some uplo \<Rightarrow>
        (case char2op c (str0 transastr) of None \<Rightarrow> (Throw, s2) | Some transA \<Rightarrow>
        (case char2diag c (str0 diagstr) of None \<Rightarrow> (Throw, s2) | Some unit_diag \<Rightarrow>
          (let lookahead = 1; p = 1; q = 1;
               An = (if side = Left then m else n); Bm = m; Bn = n;
               A = TriangularMatrix_fromLAPACK uplo unit_diag An a lda (slate_set_nb c) p q
                     MPI_COMM_WORLD;
               B = Matrix_fromLAPACK Bm Bn b ldb (slate_set_nb c) p q MPI_COMM_WORLD;
               A = (if transA = Trans then transpose_of A
                    else if transA = ConjTrans then conjTranspose A else A);
               (r, s3) = call_driver c
                     (trmm side alpha A B
                        [Lookahead \<mapsto> lookahead,
                         Target \<mapsto> Target_to_int c (slate_set_target c)]) s2
           in case r of None \<Rightarrow> (Throw, s3) | Some done \<Rightarrow>
             (let (old, s4) = slate_set_num_blas_threads saved_num_blas_threads s3;
                  s5 = (if slate_set_verbose c then logprintf ''slate_lapack_api: trmm'' s4
                        else s4)
              in (Return \<lparr>retval = None, info = None\<rparr>, s5)))))))"

text \<open>\<^verbatim>\<open>slate_pposv\<close>. The last statement stores 0 through \<^verbatim>\<open>info\<close>.\<close>

definition slate_pposv ::
  "('s, 'r) collaborators \<Rightarrow> string \<Rightarrow> int \<Rightarrow> int \<Rightarrow> ptr \<Rightarrow> int \<Rightarrow> int \<Rightarrow> desc
   \<Rightarrow> ptr \<Rightarrow> int \<Rightarrow> int \<Rightarrow> desc \<Rightarrow> 's process \<Rightarrow> 'r outputs exit \<times> 's process" where
  "slate_pposv c uplostr n nrhs a ia ja desca b ib jb descb s0 =
     (let (saved_num_blas_threads, s1) = slate_set_num_blas_threads 1 s0
      in case char2uplo c (str0 uplostr) of None \<Rightarrow> (Throw, s1) | Some uplo \<Rightarrow>
          (let lookahead = 1;
               Am = n; An = n; Bm = n; Bn = nrhs;
               (nprow, npcol, myrow, mycol) = Cblacs_gridinfo c (desc_CTXT desca);
               A = HermitianMatrix_fromScaLAPACK uplo (desc_N desca) a (desc_LLD desca)
                     (desc_MB desca) nprow npcol MPI_COMM_WORLD;
               A = slate_scalapack_submatrix Am An A ia ja desca;
               (nprow, npcol, myrow, mycol) = Cblacs_gridinfo c (desc_CTXT descb);
               B = Matrix_fromScaLAPACK (desc_M descb) (desc_N descb) b (desc_LLD descb)
                     (desc_MB descb) nprow npcol MPI_COMM_WORLD;
               B = slate_scalapack_submatrix Bm Bn B ib jb descb;
               s2 = (if slate_set_verbose c \<and> myrow = 0 \<and> mycol = 0
                     then logprintf ''posv'' s1 else s1);
               (r, s3) = call_driver c
                     (posv A B
                        [Lookahead \<mapsto> lookahead,
                         Target \<mapsto> Target_to_int c (slate_set_target c)]) s2
           in case r of None \<Rightarrow> (Throw, s3) | Some done \<Rightarrow>
             (let (old, s4) = slate_set_num_blas_threads saved_num_blas_threads s3
              in (Return \<lparr>retval = None, info = Some 0\<rparr>, s4))))"

text \<open>\<^verbatim>\<open>slate_planhe\<close>. It returns the norm and has no \<^verbatim>\<open>info\<close> parameter.\<close>

definition slate_planhe ::
  "('s, 'r) collaborators \<Rightarrow> string \<Rightarrow> string \<Rightarrow> int \<Rightarrow> ptr \<Rightarrow> int \<Rightarrow> int \<Rightarrow> desc
   \<Rightarrow> 's process \<Rightarrow> 'r outputs exit \<times> 's process" where
  "slate_planhe c normstr uplostr n a ia ja desca s0 =
     (let (saved_num_blas_threads, s1) = slate_set_num_blas_threads 1 s0
      in case char2uplo c (str0 uplostr) of None \<Rightarrow> (Throw, s1) | Some uplo \<Rightarrow>
        (case char2norm c (str0 normstr) of None \<Rightarrow> (Throw, s1) | Some norm_kind \<Rightarrow>
          (let lookahead = 1;
               Am = n; An = n;
               (nprow, npcol, myrow, mycol) = Cblacs_gridinfo c (desc_CTXT desca);
               A = HermitianMatrix_fromScaLAPACK uplo (desc_N desca) a (desc_LLD desca)
                     (desc_MB desca) nprow npcol MPI_COMM_WORLD;
               A = slate_scalapack_submatrix Am An A ia ja desca;
               s2 = (if slate_set_verbose c \<and> myrow = 0 \<and> mycol = 0
                     then logprintf ''lanhe'' s1 else s1);
               (r, s3) = call_driver c
                     (norm norm_kind A
                        [Target \<mapsto> Target_to_int c (slate_set_target c),
                         Lookahead \<mapsto> lookahead]) s2
           in case r of None \<Rightarrow> (Throw, s3) | Some A_norm \<Rightarrow>
             (let (old, s4) = slate_set_num_blas_threads saved_num_blas_threads s3
              in (Return \<lparr>retval = Some A_norm, info = None\<rparr>, s4)))))"

section \<open>Observing a run\<close>

text \<open>The tasks submitted, in submission order.\<close>

fun tasks_of :: "event list \<Rightarrow> task list" where
  "tasks_of [] = []"
| "tasks_of (omp_task t # es) = t # tasks_of es"
| "tasks_of (omp_taskwait # es) = tasks_of es"
| "tasks_of (master c # es) = tasks_of es"

text \<open>The diagonal tiles handed to the panel kernel, in submission order.\<close>

fun factored_by_call :: "call \<Rightarrow> int list" where
  "factored_by_call (internal_getrf_nopiv target (sub i1 i2 j1 j2) ib prio) = [i1]"
| "factored_by_call _ = []"

definition factored_by_task :: "task \<Rightarrow> int list" where
  "factored_by_task t = concat (map factored_by_call (body t))"

definition factored :: "event list \<Rightarrow> int list" where
  "factored es = concat (map factored_by_task (tasks_of es))"

subsection \<open>Task dependences\<close>

text \<open>
  The rule of the \<^verbatim>\<open>depend\<close> clause: a task depends on every sibling task
  submitted before it that names one of its tokens, unless both only read the token.
  Tasks are ordered when a chain of such dependences leads from one to the other.
\<close>

fun token_of :: "dependence \<Rightarrow> token" where
  "token_of (depend_in x) = x"
| "token_of (depend_out x) = x"
| "token_of (depend_inout x) = x"

fun is_write :: "dependence \<Rightarrow> bool" where
  "is_write (depend_in x) = False"
| "is_write (depend_out x) = True"
| "is_write (depend_inout x) = True"

definition conflicts :: "task \<Rightarrow> task \<Rightarrow> bool" where
  "conflicts a b =
     (\<exists>x \<in> set (depends a). \<exists>y \<in> set (depends b).
        token_of x = token_of y \<and> (is_write x \<or> is_write y))"

inductive ordered :: "task list \<Rightarrow> nat \<Rightarrow> nat \<Rightarrow> bool" for ts :: "task list" where
  dependent: "i < j \<Longrightarrow> j < length ts \<Longrightarrow> conflicts (ts ! i) (ts ! j) \<Longrightarrow> ordered ts i j"
| chain: "ordered ts i m \<Longrightarrow> ordered ts m j \<Longrightarrow> ordered ts i j"

subsection \<open>Broadcasts\<close>

text \<open>
  Modelled from the spec: the matrix class with \<^verbatim>\<open>tileBcast\<close>, \<^verbatim>\<open>listBcast\<close>,
  \<^verbatim>\<open>listBcastMT\<close> and the tile owner is not in the sources. A broadcast sends
  one source tile to every process that owns a tile of its destination views, under
  one tag; \<^verbatim>\<open>listBcast\<close> uses its tag argument for every entry of the list,
  \<^verbatim>\<open>listBcastMT\<close> the tag stored in the entry.
\<close>

record bcast =
  src :: "int \<times> int"
  dests :: "view list"
  tag :: int

fun bcasts_of_call :: "call \<Rightarrow> bcast list" where
  "bcasts_of_call (listBcast target bcast_list layout t life shared) =
     map (\<lambda>(i, j, vs). \<lparr>src = (i, j), dests = vs, tag = t\<rparr>) bcast_list"
| "bcasts_of_call (listBcastMT target bcast_list layout life shared) =
     map (\<lambda>(i, j, vs, t). \<lparr>src = (i, j), dests = vs, tag = t\<rparr>) bcast_list"
| "bcasts_of_call (tileBcast i j v layout t) = [\<lparr>src = (i, j), dests = [v], tag = t\<rparr>]"
| "bcasts_of_call _ = []"

definition bcasts_of_task :: "task \<Rightarrow> bcast list" where
  "bcasts_of_task t = concat (map bcasts_of_call (body t))"

definition bcasts_of :: "event list \<Rightarrow> bcast list" where
  "bcasts_of es = concat (map bcasts_of_task (tasks_of es))"

fun tiles_of_view :: "view \<Rightarrow> (int \<times> int) list" where
  "tiles_of_view (sub i1 i2 j1 j2) = concat (map (\<lambda>i. map (\<lambda>j. (i, j)) [j1..j2]) [i1..i2])"

text \<open>
  The (source rank, destination rank, tag) triples of a broadcast, for a given owner
  of each tile, and those among them that are messages between two processes.
\<close>

definition triples :: "(int \<times> int \<Rightarrow> 'r) \<Rightarrow> bcast \<Rightarrow> ('r \<times> 'r \<times> int) list" where
  "triples rank b =
     map (\<lambda>d. (rank (src b), rank d, tag b)) (concat (map tiles_of_view (dests b)))"

definition messages :: "(int \<times> int \<Rightarrow> 'r) \<Rightarrow> bcast \<Rightarrow> ('r \<times> 'r \<times> int) list" where
  "messages rank b = filter (\<lambda>(s, d, t). s \<noteq> d) (triples rank b)"

text \<open>
  Modelled from the spec: tile (i, j) is owned by process (i mod P, j mod Q) of the
  P by Q process grid.
\<close>

definition block_cyclic :: "int \<Rightarrow> int \<Rightarrow> int \<times> int \<Rightarrow> int \<times> int" where
  "block_cyclic P Q = (\<lambda>(i, j). (i mod P, j mod Q))"

text \<open>
  No broadcast is issued twice and no two broadcasts use a common triple.
\<close>

definition collision_free :: "(bcast \<Rightarrow> 'x list) \<Rightarrow> bcast list \<Rightarrow> bool" where
  "collision_free tr bs =
     (distinct bs \<and> (\<forall>b1 \<in> set bs. \<forall>b2 \<in> set bs. b1 \<noteq> b2 \<longrightarrow> set (tr b1) \<inter> set (tr b2) = {}))"

section \<open>Sample inputs\<close>

text \<open>
  A runtime with four threads whose target codes are the characters H, T, N, B, D,
  and the identity matrix in 2 by 2 tiles held by one process with one device.
\<close>

definition rt4 :: runtime where
  "rt4 = \<lparr>omp_get_max_threads = 4,
          Target_code = (\<lambda>t. case t of Host \<Rightarrow> 72 | HostTask \<Rightarrow> 84 | HostNest \<Rightarrow> 78
                              | HostBatch \<Rightarrow> 66 | Devices \<Rightarrow> 68)\<rparr>"

definition A22 :: "int Matrix" where
  "A22 = \<lparr>mt = 2, nt = 2, tileIsLocal = (\<lambda>i j. True), getLocalDevices = (\<lambda>v. [0]),
          entries = (\<lambda>r c. if r = c then 1 else 0)\<rparr>"

text \<open>
  The identity matrix in 4 by 4 tiles, and an owner that puts tile (1, 1) on process 1
  and every other tile on process 0.
\<close>

definition A44 :: "int Matrix" where
  "A44 = \<lparr>mt = 4, nt = 4, tileIsLocal = (\<lambda>i j. True), getLocalDevices = (\<lambda>v. [0]),
          entries = (\<lambda>r c. if r = c then 1 else 0)\<rparr>"

definition owner_11 :: "int \<times> int \<Rightarrow> int" where
  "owner_11 t = (if t = (1, 1) then 1 else 0)"

text \<open>
  The singular matrix of the spec's scenario D, in 2 by 2 tiles of 2 by 2 entries: its
  second row is twice the first, so the second pivot is exactly zero.
\<close>

definition scenario_D :: "int Matrix" where
  "scenario_D =
     \<lparr>mt = 2, nt = 2, tileIsLocal = (\<lambda>i j. True), getLocalDevices = (\<lambda>v. [0]),
      entries = (\<lambda>r c. if 0 \<le> r \<and> r < 4 \<and> 0 \<le> c \<and> c < 4
                        then [[1, 2, 3, 4], [2, 4, 6, 8], [0, 0, 1, 0], [0, 0, 0, 1]]
                             ! nat r ! nat c
                        else 0)\<rparr>"

text \<open>
  Collaborators with the usual character conversions, a 1 by 2 process grid and a
  driver that returns 5; the same with a driver that throws; a process running four
  BLAS threads; a descriptor of an 8 by 8 matrix in blocks of 2.
\<close>

definition lib_ok :: "(int, int) collaborators" where
  "lib_ok =
     \<lparr>slate_set_verbose = False, slate_set_target = HostTask, slate_set_nb = 256,
      Target_to_int = Target_code rt4,
      char2side = (\<lambda>ch. if ch = CHR ''L'' then Some Left
                         else if ch = CHR ''R'' then Some Right else None),
      char2uplo = (\<lambda>ch. if ch = CHR ''U'' then Some Upper
                         else if ch = CHR ''L'' then Some Lower
                         else if ch = CHR ''G'' then Some General else None),
      char2op = (\<lambda>ch. if ch = CHR ''N'' then Some NoTrans
                       else if ch = CHR ''T'' then Some Trans
                       else if ch = CHR ''C'' then Some ConjTrans else None),
      char2diag = (\<lambda>ch. if ch = CHR ''U'' then Some Unit
                         else if ch = CHR ''N'' then Some NonUnit else None),
      char2norm = (\<lambda>ch. if ch = CHR ''O'' then Some Norm_One
                         else if ch = CHR ''I'' then Some Norm_Inf
                         else if ch = CHR ''F'' then Some Norm_Fro
                         else if ch = CHR ''M'' then Some Norm_Max else None),
      Cblacs_gridinfo = (\<lambda>ctxt. (1, 2, 0, 0)),
      slate_driver = (\<lambda>dc. Some 5)\<rparr>"

definition lib_throwing :: "(int, int) collaborators" where
  "lib_throwing = lib_ok\<lparr>slate_driver := (\<lambda>dc. None)\<rparr>"

definition four_threads :: "int process" where
  "four_threads =
     \<lparr>num_blas_threads = 4, mpi_initialized = True, printed = [], driver_calls = []\<rparr>"

definition desc8 :: desc where
  "desc8 = \<lparr>desc_CTXT = 0, desc_M = 8, desc_N = 8, desc_MB = 2, desc_NB = 2,
            desc_RSRC = 0, desc_CSRC = 0, desc_LLD = 8\<rparr>"

section \<open>Loops\<close>

lemma set_for_range: "set (for_range lo hi f) = (\<Union>x \<in> {lo..<hi}. set (f x))"
  by (auto simp: for_range_def)

lemma for_range_memI: "lo \<le> x \<Longrightarrow> x < hi \<Longrightarrow> y \<in> set (f x) \<Longrightarrow> y \<in> set (for_range lo hi f)"
  by (auto simp: set_for_range)

lemma for_range_split:
  "lo \<le> x \<Longrightarrow> x < hi \<Longrightarrow>
   for_range lo hi f = for_range lo x f @ f x @ for_range (x + 1) hi f"
proof -
  assume a: "lo \<le> x" "x < hi"
  then have "[lo..hi - 1] = [lo..x - 1] @ x # [x + 1..hi - 1]"
    by (intro upto_split3) simp_all
  then show ?thesis by (simp add: for_range_def)
qed

section \<open>Option resolution\<close>

lemma get_max_panel_threads_valid:
  "1 \<le> v \<Longrightarrow> v \<le> omp_get_max_threads rt \<Longrightarrow>
   get_max_panel_threads rt (opts(MaxPanelThreads \<mapsto> v)) = Inr v"
  by (simp add: get_max_panel_threads_def)

lemma get_lookahead_upd_other:
  "x \<noteq> Lookahead \<Longrightarrow> get_lookahead (opts(x \<mapsto> v)) = get_lookahead opts"
  by (simp add: get_lookahead_def)

lemma get_ib_upd_other:
  "x \<noteq> InnerBlocking \<Longrightarrow> get_ib (opts(x \<mapsto> v)) = get_ib opts"
  by (simp add: get_ib_def)

lemma get_max_panel_threads_upd_other:
  "x \<noteq> MaxPanelThreads \<Longrightarrow>
   get_max_panel_threads rt (opts(x \<mapsto> v)) = get_max_panel_threads rt opts"
  by (simp add: get_max_panel_threads_def)

lemma specialization_max_panel_threads:
  "specialization_getrf_nopiv target A ib m lookahead =
   specialization_getrf_nopiv target A ib m' lookahead"
  by (simp add: specialization_getrf_nopiv_def getrf_nopiv_generic_def getrf_nopiv_Devices_def)

lemma getrf_nopiv_target_max_panel_threads:
  assumes "1 \<le> v1" "v1 \<le> omp_get_max_threads rt" "1 \<le> v2" "v2 \<le> omp_get_max_threads rt"
  shows "getrf_nopiv_target rt target A (opts(MaxPanelThreads \<mapsto> v1)) =
         getrf_nopiv_target rt target A (opts(MaxPanelThreads \<mapsto> v2))"
proof -
  have "specialization_getrf_nopiv target A ib v1 la = specialization_getrf_nopiv target A ib v2 la"
    for ib la
    by (rule specialization_max_panel_threads)
  then show ?thesis
    using assms
    by (simp add: getrf_nopiv_target_def get_max_panel_threads_valid get_lookahead_upd_other
        get_ib_upd_other split: sum.splits)
qed

text \<open>
  C10. The value of \<open>MaxPanelThreads\<close> is checked at entry and then dropped: two calls
  that differ only in a valid value of it do the same, and neither specialization
  reads its \<open>max_panel_threads\<close> parameter.
\<close>

theorem getrf_nopiv_MaxPanelThreads_unused:
  assumes "1 \<le> v1" "v1 \<le> omp_get_max_threads rt" "1 \<le> v2" "v2 \<le> omp_get_max_threads rt"
  shows "getrf_nopiv rt A (opts(MaxPanelThreads \<mapsto> v1)) =
         getrf_nopiv rt A (opts(MaxPanelThreads \<mapsto> v2))
       \<and> getrf_nopiv_generic target A ib v1 lookahead =
         getrf_nopiv_generic target A ib v2 lookahead
       \<and> getrf_nopiv_Devices A ib v1 lookahead = getrf_nopiv_Devices A ib v2 lookahead"
proof -
  have "getrf_nopiv rt A (opts(MaxPanelThreads \<mapsto> v1)) =
        getrf_nopiv rt A (opts(MaxPanelThreads \<mapsto> v2))"
    unfolding getrf_nopiv_def Let_def
    by (simp add: getrf_nopiv_target_max_panel_threads [OF assms])
  moreover have "getrf_nopiv_generic target A ib v1 lookahead =
                 getrf_nopiv_generic target A ib v2 lookahead"
    by (simp add: getrf_nopiv_generic_def)
  moreover have "getrf_nopiv_Devices A ib v1 lookahead = getrf_nopiv_Devices A ib v2 lookahead"
    by (simp add: getrf_nopiv_Devices_def)
  ultimately show ?thesis by simp
qed

theorem getrf_nopiv_MaxPanelThreads_unused_witness:
  "(1::int) \<le> 1 \<and> 1 \<le> omp_get_max_threads rt4 \<and> (1::int) \<le> 3 \<and> 3 \<le> omp_get_max_threads rt4
   \<and> getrf_nopiv rt4 A22 (Map.empty(MaxPanelThreads \<mapsto> 1)) =
     getrf_nopiv rt4 A22 (Map.empty(MaxPanelThreads \<mapsto> 3))
   \<and> getrf_nopiv_generic HostTask A22 16 1 1 = getrf_nopiv_generic HostTask A22 16 3 1
   \<and> getrf_nopiv_Devices A22 16 1 1 = getrf_nopiv_Devices A22 16 3 1"
proof -
  have h: "(1::int) \<le> 1" "1 \<le> omp_get_max_threads rt4" "(1::int) \<le> 3" "3 \<le> omp_get_max_threads rt4"
    by (simp_all add: rt4_def)
  show ?thesis
    using h getrf_nopiv_MaxPanelThreads_unused [OF h, of A22 Map.empty HostTask 16 1]
    by simp
qed

lemma getrf_nopiv_target_aborts:
  assumes "(\<exists>v. opts Lookahead = Some v \<and> v < 0)
         \<or> (\<exists>v. opts InnerBlocking = Some v \<and> v < 0)
         \<or> (\<exists>v. opts MaxPanelThreads = Some v \<and> (v < 1 \<or> omp_get_max_threads rt < v))"
  shows "getrf_nopiv_target rt target A opts = Aborted []"
  using assms
  by (auto simp: getrf_nopiv_target_def get_lookahead_def get_ib_def
      get_max_panel_threads_def split: sum.splits option.splits)

text \<open>
  C3, as the code has it. With the target absent or an enumerator's code, a negative
  \<open>Lookahead\<close>, a negative \<open>InnerBlocking\<close>, or a \<open>MaxPanelThreads\<close> below 1 or
  above \<^verbatim>\<open>omp_get_max_threads()\<close> fails an assertion: the call is aborted and no
  event has happened. An \<open>InnerBlocking\<close> of 0 passes the assertion.
\<close>

theorem getrf_nopiv_invalid_option_aborts:
  assumes "opts Target = None \<or> (\<exists>t. opts Target = Some (Target_code rt t))"
    and "(\<exists>v. opts Lookahead = Some v \<and> v < 0)
       \<or> (\<exists>v. opts InnerBlocking = Some v \<and> v < 0)
       \<or> (\<exists>v. opts MaxPanelThreads = Some v \<and> (v < 1 \<or> omp_get_max_threads rt < v))"
  shows "getrf_nopiv rt A opts = Aborted []"
proof -
  have ab: "getrf_nopiv_target rt target A opts = Aborted []" for target
    by (rule getrf_nopiv_target_aborts [OF assms(2)])
  from assms(1) show ?thesis
  proof
    assume "opts Target = None"
    then show ?thesis by (simp add: getrf_nopiv_def Let_def ab)
  next
    assume "\<exists>t. opts Target = Some (Target_code rt t)"
    then obtain t where t: "opts Target = Some (Target_code rt t)" ..
    show ?thesis
      by (cases t) (simp_all add: getrf_nopiv_def Let_def t ab)
  qed
qed

theorem getrf_nopiv_invalid_option_aborts_witness:
  "getrf_nopiv rt4 A22 [Lookahead \<mapsto> - 1] = Aborted []
   \<and> getrf_nopiv rt4 A22 [Target \<mapsto> 68, InnerBlocking \<mapsto> - 2] = Aborted []
   \<and> getrf_nopiv rt4 A22 [MaxPanelThreads \<mapsto> 5] = Aborted []"
proof -
  have "getrf_nopiv rt4 A22 [Lookahead \<mapsto> - 1] = Aborted []"
    using getrf_nopiv_invalid_option_aborts [of "[Lookahead \<mapsto> - 1]" rt4 A22] by simp
  moreover have "getrf_nopiv rt4 A22 [Target \<mapsto> 68, InnerBlocking \<mapsto> - 2] = Aborted []"
  proof -
    have "[Target \<mapsto> 68, InnerBlocking \<mapsto> - 2] Target = Some (Target_code rt4 Devices)"
      by (simp add: rt4_def)
    then show ?thesis
      using getrf_nopiv_invalid_option_aborts
        [of "[Target \<mapsto> 68, InnerBlocking \<mapsto> - 2]" rt4 A22]
      by fastforce
  qed
  moreover have "getrf_nopiv rt4 A22 [MaxPanelThreads \<mapsto> 5] = Aborted []"
    using getrf_nopiv_invalid_option_aborts [of "[MaxPanelThreads \<mapsto> 5]" rt4 A22]
    by (simp add: rt4_def)
  ultimately show ?thesis by simp
qed

text \<open>
  C3 as stated fails: with \<open>InnerBlocking\<close> 0 the call is not refused; it returns
  after submitting its tasks, the panel task of column 0 among them.
\<close>

theorem getrf_nopiv_InnerBlocking_zero_runs:
  "getrf_nopiv rt4 A22 [InnerBlocking \<mapsto> 0] = Returned (getrf_nopiv_generic HostTask A22 0 2 1)
   \<and> omp_task (panel_task A22 0 0) \<in> set (getrf_nopiv_generic HostTask A22 0 2 1)"
proof -
  have "getrf_nopiv rt4 A22 [InnerBlocking \<mapsto> 0] =
        Returned (getrf_nopiv_generic HostTask A22 0 2 1)"
    by (simp add: getrf_nopiv_def Let_def getrf_nopiv_target_def get_lookahead_def get_ib_def
        get_max_panel_threads_def specialization_getrf_nopiv_def rt4_def int_div_def)
  moreover have "omp_task (panel_task A22 0 0) \<in> set (getrf_nopiv_generic HostTask A22 0 2 1)"
  proof -
    have "omp_task (panel_task A22 0 0) \<in> set (iteration HostTask A22 0 1 0)"
      by (simp add: iteration_def)
    then have "omp_task (panel_task A22 0 0)
        \<in> set (for_range 0 (min (mt A22) (nt A22)) (iteration HostTask A22 0 1))"
      by (intro for_range_memI [of 0 0]) (simp_all add: A22_def)
    then show ?thesis by (simp add: getrf_nopiv_generic_def)
  qed
  ultimately show ?thesis by simp
qed

text \<open>
  C7. An option that is absent takes its default: \<open>Lookahead\<close> 1, \<open>InnerBlocking\<close>
  16, \<open>Target\<close> \<open>HostTask\<close>. A call with the empty map does what a call with the
  three defaults written out does, namely run the generic specialization for
  \<open>HostTask\<close> with inner blocking 16 and lookahead 1.
\<close>

theorem getrf_nopiv_defaults:
  "(opts Lookahead = None \<longrightarrow>
      getrf_nopiv rt A opts = getrf_nopiv rt A (opts(Lookahead \<mapsto> 1)))
   \<and> (opts InnerBlocking = None \<longrightarrow>
      getrf_nopiv rt A opts = getrf_nopiv rt A (opts(InnerBlocking \<mapsto> 16)))
   \<and> (opts Target = None \<longrightarrow>
      getrf_nopiv rt A opts = getrf_nopiv rt A (opts(Target \<mapsto> Target_code rt HostTask)))
   \<and> getrf_nopiv rt A Map.empty =
      getrf_nopiv rt A
        [Lookahead \<mapsto> 1, InnerBlocking \<mapsto> 16, Target \<mapsto> Target_code rt HostTask]
   \<and> getrf_nopiv rt A Map.empty =
      Returned (getrf_nopiv_generic HostTask A 16 (max (int_div (omp_get_max_threads rt) 2) 1) 1)"
proof -
  have la: "getrf_nopiv_target rt t A (opts(Lookahead \<mapsto> 1)) = getrf_nopiv_target rt t A opts"
    if "opts Lookahead = None" for t
    using that
    by (simp add: getrf_nopiv_target_def get_lookahead_def get_ib_def get_max_panel_threads_def
        split: sum.splits option.splits)
  have ib: "getrf_nopiv_target rt t A (opts(InnerBlocking \<mapsto> 16)) = getrf_nopiv_target rt t A opts"
    if "opts InnerBlocking = None" for t
    using that
    by (simp add: getrf_nopiv_target_def get_lookahead_def get_ib_def get_max_panel_threads_def
        split: sum.splits option.splits)
  have tg: "getrf_nopiv_target rt t A (opts(Target \<mapsto> c)) = getrf_nopiv_target rt t A opts"
    for t c
    by (simp add: getrf_nopiv_target_def get_lookahead_def get_ib_def get_max_panel_threads_def
        split: sum.splits option.splits)
  have 1: "opts Lookahead = None \<Longrightarrow>
      getrf_nopiv rt A opts = getrf_nopiv rt A (opts(Lookahead \<mapsto> 1))"
    by (simp add: getrf_nopiv_def Let_def la)
  have 2: "opts InnerBlocking = None \<Longrightarrow>
      getrf_nopiv rt A opts = getrf_nopiv rt A (opts(InnerBlocking \<mapsto> 16))"
    by (simp add: getrf_nopiv_def Let_def ib)
  have 3: "opts Target = None \<Longrightarrow>
      getrf_nopiv rt A opts = getrf_nopiv rt A (opts(Target \<mapsto> Target_code rt HostTask))"
    by (simp add: getrf_nopiv_def Let_def tg)
  have run: "getrf_nopiv rt A Map.empty =
      Returned (getrf_nopiv_generic HostTask A 16 (max (int_div (omp_get_max_threads rt) 2) 1) 1)"
    by (simp add: getrf_nopiv_def Let_def getrf_nopiv_target_def get_lookahead_def get_ib_def
        get_max_panel_threads_def specialization_getrf_nopiv_def)
  have expl: "getrf_nopiv rt A
        [Lookahead \<mapsto> 1, InnerBlocking \<mapsto> 16, Target \<mapsto> Target_code rt HostTask] =
      Returned (getrf_nopiv_generic HostTask A 16 (max (int_div (omp_get_max_threads rt) 2) 1) 1)"
    by (simp add: getrf_nopiv_def Let_def getrf_nopiv_target_def get_lookahead_def get_ib_def
        get_max_panel_threads_def specialization_getrf_nopiv_def)
  from 1 2 3 run expl show ?thesis by simp
qed

theorem getrf_nopiv_defaults_witness:
  "getrf_nopiv rt4 A22 [MaxPanelThreads \<mapsto> 2] =
     getrf_nopiv rt4 A22 [MaxPanelThreads \<mapsto> 2, Lookahead \<mapsto> 1]
   \<and> getrf_nopiv rt4 A22 [MaxPanelThreads \<mapsto> 2] =
     getrf_nopiv rt4 A22 [MaxPanelThreads \<mapsto> 2, InnerBlocking \<mapsto> 16]
   \<and> getrf_nopiv rt4 A22 [MaxPanelThreads \<mapsto> 2] =
     getrf_nopiv rt4 A22 [MaxPanelThreads \<mapsto> 2, Target \<mapsto> 84]
   \<and> getrf_nopiv rt4 A22 Map.empty =
     getrf_nopiv rt4 A22 [Lookahead \<mapsto> 1, InnerBlocking \<mapsto> 16, Target \<mapsto> 84]
   \<and> getrf_nopiv rt4 A22 Map.empty = Returned (getrf_nopiv_generic HostTask A22 16 2 1)"
proof -
  have c: "Target_code rt4 HostTask = 84" "max (int_div (omp_get_max_threads rt4) 2) 1 = 2"
    by (simp_all add: rt4_def int_div_def)
  have n: "[MaxPanelThreads \<mapsto> 2::int] Lookahead = None"
    "[MaxPanelThreads \<mapsto> 2::int] InnerBlocking = None"
    "[MaxPanelThreads \<mapsto> 2::int] Target = None"
    by simp_all
  note T = getrf_nopiv_defaults [of "[MaxPanelThreads \<mapsto> 2]" rt4 A22, unfolded c]
  from T n show ?thesis by blast
qed

section \<open>The shape of a run of the generic specialization\<close>

lemma wrap64_id: "- (2 ^ 63) \<le> x \<Longrightarrow> x < 2 ^ 63 \<Longrightarrow> wrap64 x = x"
  by (simp add: wrap64_def)

lemma wrap32_id: "- (2 ^ 31) \<le> x \<Longrightarrow> x < 2 ^ 31 \<Longrightarrow> wrap32 x = x"
  by (simp add: wrap32_def)

lemma add64_id: "- (2 ^ 63) \<le> a + b \<Longrightarrow> a + b < 2 ^ 63 \<Longrightarrow> add64 a b = a + b"
  by (simp add: add64_def wrap64_id)

lemma tasks_of_append: "tasks_of (xs @ ys) = tasks_of xs @ tasks_of ys"
  by (induction xs rule: tasks_of.induct) simp_all

lemma tasks_of_concat: "tasks_of (concat xss) = concat (map tasks_of xss)"
  by (induction xss) (simp_all add: tasks_of_append)

lemma tasks_of_for_range: "tasks_of (for_range lo hi f) = for_range lo hi (\<lambda>x. tasks_of (f x))"
  by (simp add: for_range_def tasks_of_concat comp_def)

lemma tasks_of_map_omp_task: "tasks_of (map omp_task ts) = ts"
  by (induction ts) simp_all

lemma map_omp_task_tasks_of:
  "(\<forall>e \<in> set es. \<exists>t. e = omp_task t) \<Longrightarrow> map omp_task (tasks_of es) = es"
  by (induction es rule: tasks_of.induct) simp_all

lemma iteration_all_tasks: "\<forall>e \<in> set (iteration target A ib la k). \<exists>t. e = omp_task t"
  by (auto simp: iteration_def set_for_range)

lemma iteration_tasks:
  "tasks_of (iteration target A ib la k) =
     [panel_task A ib k, panel_trsm_task A k, panel_bcast_task A k]
     @ for_range (k + 1) (min (add64 (k + 1) la) (nt A))
         (\<lambda>j. [lookahead_trsm_task A k j, lookahead_gemm_task A k j])
     @ (if add64 (k + 1) la < nt A
        then [trailing_trsm_task A k (add64 (k + 1) la),
              trailing_bcast_task A k (add64 (k + 1) la),
              trailing_gemm_task target A k (add64 (k + 1) la)]
        else [])"
  by (simp add: iteration_def tasks_of_append tasks_of_for_range)

lemma generic_shape:
  "getrf_nopiv_generic target A ib m la =
     master (omp_set_nested 1)
     # map omp_task (for_range 0 (min (mt A) (nt A)) (\<lambda>k. tasks_of (iteration target A ib la k)))
     @ [omp_taskwait, master tileUpdateAllOrigin, master clearWorkspace]"
proof -
  have "\<forall>e \<in> set (for_range 0 (min (mt A) (nt A)) (iteration target A ib la)). \<exists>t. e = omp_task t"
    using iteration_all_tasks [of target A ib la] by (auto simp: set_for_range)
  then have "map omp_task (tasks_of (for_range 0 (min (mt A) (nt A)) (iteration target A ib la)))
      = for_range 0 (min (mt A) (nt A)) (iteration target A ib la)"
    by (rule map_omp_task_tasks_of)
  then show ?thesis
    by (simp add: getrf_nopiv_generic_def tasks_of_for_range)
qed

lemma generic_tasks:
  "tasks_of (getrf_nopiv_generic target A ib m la) =
     for_range 0 (min (mt A) (nt A)) (\<lambda>k. tasks_of (iteration target A ib la k))"
  by (simp add: generic_shape tasks_of_append tasks_of_map_omp_task)


lemma concat_map_for_range:
  "concat (map g (for_range lo hi f)) = for_range lo hi (\<lambda>x. concat (map g (f x)))"
proof -
  have "concat (map g (concat (map f xs))) = concat (map (\<lambda>x. concat (map g (f x))) xs)" for xs
    by (induction xs) simp_all
  then show ?thesis by (simp add: for_range_def)
qed

lemma for_range_Nil: "for_range lo hi (\<lambda>x. []) = []"
  by (simp add: for_range_def)

lemma for_range_singleton: "for_range lo hi (\<lambda>x. [x]) = [lo..hi - 1]"
proof -
  have "concat (map (\<lambda>x. [x]) xs) = xs" for xs :: "int list"
    by (induction xs) simp_all
  then show ?thesis by (simp add: for_range_def)
qed

lemma factored_by_task_simps:
  "factored_by_task (panel_task A ib k) = [k]"
  "factored_by_task (panel_trsm_task A k) = []"
  "factored_by_task (panel_bcast_task A k) = []"
  "factored_by_task (lookahead_trsm_task A k j) = []"
  "factored_by_task (lookahead_gemm_task A k j) = []"
  "factored_by_task (trailing_trsm_task A k kl) = []"
  "factored_by_task (trailing_bcast_task A k kl) = []"
  "factored_by_task (trailing_gemm_task target A k kl) = []"
  by (simp_all add: factored_by_task_def panel_task_def panel_trsm_task_def panel_bcast_task_def
     lookahead_trsm_task_def lookahead_gemm_task_def trailing_trsm_task_def trailing_bcast_task_def
     trailing_gemm_task_def)

lemma factored_iteration:
  "concat (map factored_by_task (tasks_of (iteration target A ib la k))) = [k]"
  by (auto simp: iteration_tasks concat_map_for_range factored_by_task_simps for_range_Nil)

lemma factored_generic:
  "factored (getrf_nopiv_generic target A ib m la) = [0 .. min (mt A) (nt A) - 1]"
  by (simp add: factored_def generic_tasks concat_map_for_range factored_iteration
      for_range_singleton)


lemma omp_task_mem: "omp_task t \<in> set es \<longleftrightarrow> t \<in> set (tasks_of es)"
  by (induction es rule: tasks_of.induct) auto

lemmas task_defs = panel_task_def panel_trsm_task_def panel_bcast_task_def
     lookahead_trsm_task_def lookahead_gemm_task_def trailing_trsm_task_def trailing_bcast_task_def
     trailing_gemm_task_def

lemma kl_id:
  assumes "0 \<le> la" "nt A + la < 2 ^ 63" "0 \<le> k" "k < nt A"
  shows "add64 (k + 1) la = k + 1 + la"
  using assms by (intro add64_id) simp_all

lemma set_iteration_tasks:
  assumes "0 \<le> la" "nt A + la < 2 ^ 63" "0 \<le> k" "k < nt A"
  shows "set (tasks_of (iteration target A ib la k)) =
     {panel_task A ib k, panel_trsm_task A k, panel_bcast_task A k}
     \<union> (\<Union>j \<in> {k + 1 ..< min (k + 1 + la) (nt A)}.
          {lookahead_trsm_task A k j, lookahead_gemm_task A k j})
     \<union> (if k + 1 + la < nt A
        then {trailing_trsm_task A k (k + 1 + la), trailing_bcast_task A k (k + 1 + la),
              trailing_gemm_task target A k (k + 1 + la)}
        else {})"
  by (auto simp: iteration_tasks kl_id [OF assms] set_for_range)

lemma set_generic_tasks:
  "set (tasks_of (getrf_nopiv_generic target A ib m la)) =
   (\<Union>k \<in> {0 ..< min (mt A) (nt A)}. set (tasks_of (iteration target A ib la k)))"
  by (simp add: generic_tasks set_for_range)

lemma mem_lookahead_trsm:
  assumes "0 \<le> la" "nt A + la < 2 ^ 63"
  shows "omp_task (lookahead_trsm_task A k j) \<in> set (getrf_nopiv_generic target A ib m la)
     \<longleftrightarrow> 0 \<le> k \<and> k \<le> min (mt A) (nt A) - 1 \<and> k + 1 \<le> j \<and> j \<le> min (k + la) (nt A - 1)"
proof -
  have "lookahead_trsm_task A k j \<in> set (tasks_of (iteration target A ib la k'))
     \<longleftrightarrow> k' = k \<and> k + 1 \<le> j \<and> j \<le> min (k + la) (nt A - 1)"
    if "0 \<le> k'" "k' < nt A" for k'
    unfolding set_iteration_tasks [OF assms that]
    by (auto simp: task_defs)
  then show ?thesis
    unfolding omp_task_mem set_generic_tasks by auto
qed


lemma mem_lookahead_gemm:
  assumes "0 \<le> la" "nt A + la < 2 ^ 63"
  shows "omp_task (lookahead_gemm_task A k j) \<in> set (getrf_nopiv_generic target A ib m la)
     \<longleftrightarrow> 0 \<le> k \<and> k \<le> min (mt A) (nt A) - 1 \<and> k + 1 \<le> j \<and> j \<le> min (k + la) (nt A - 1)"
proof -
  have "lookahead_gemm_task A k j \<in> set (tasks_of (iteration target A ib la k'))
     \<longleftrightarrow> k' = k \<and> k + 1 \<le> j \<and> j \<le> min (k + la) (nt A - 1)"
    if "0 \<le> k'" "k' < nt A" for k'
    unfolding set_iteration_tasks [OF assms that]
    by (auto simp: task_defs)
  then show ?thesis
    unfolding omp_task_mem set_generic_tasks by auto
qed

lemma mem_trailing_trsm:
  assumes "0 \<le> la" "nt A + la < 2 ^ 63"
  shows "omp_task (trailing_trsm_task A k kl) \<in> set (getrf_nopiv_generic target A ib m la)
     \<longleftrightarrow> 0 \<le> k \<and> k \<le> min (mt A) (nt A) - 1 \<and> kl = k + 1 + la \<and> k + 1 + la < nt A"
proof -
  have "trailing_trsm_task A k kl \<in> set (tasks_of (iteration target A ib la k'))
     \<longleftrightarrow> k' = k \<and> kl = k + 1 + la \<and> k + 1 + la < nt A"
    if "0 \<le> k'" "k' < nt A" for k'
    unfolding set_iteration_tasks [OF assms that]
    by (auto simp: task_defs)
  then show ?thesis
    unfolding omp_task_mem set_generic_tasks by auto
qed

lemma for_range_head: "lo < hi \<Longrightarrow> for_range lo hi f = f lo @ for_range (lo + 1) hi f"
  by (simp add: for_range_def upto_rec1)

lemma for_range_single_eqD:
  "lo < hi \<Longrightarrow> for_range lo hi (\<lambda>j. [f j]) = for_range lo hi (\<lambda>j. [g j]) \<Longrightarrow> f lo = g lo"
  by (simp add: for_range_head)

lemma trailing_bcast_task_eqD:
  assumes "trailing_bcast_task A k kl = trailing_bcast_task A k' kl'" "kl' < nt A"
  shows "k = k' \<and> kl = kl'"
proof -
  from assms(1) have kl: "kl = kl'"
    by (simp add: trailing_bcast_task_def)
  from assms(1) have "for_range kl' (nt A) (\<lambda>j. [(k, j, [sub (k + 1) (mt A - 1) j j], add64 j (mt A))])
      = for_range kl' (nt A) (\<lambda>j. [(k', j, [sub (k' + 1) (mt A - 1) j j], add64 j (mt A))])"
    by (simp add: trailing_bcast_task_def kl)
  from for_range_single_eqD [OF assms(2) this] kl show ?thesis by simp
qed

lemma mem_trailing_bcast:
  assumes "0 \<le> la" "nt A + la < 2 ^ 63"
  shows "omp_task (trailing_bcast_task A k kl) \<in> set (getrf_nopiv_generic target A ib m la)
     \<longleftrightarrow> 0 \<le> k \<and> k \<le> min (mt A) (nt A) - 1 \<and> kl = k + 1 + la \<and> k + 1 + la < nt A"
proof -
  have "trailing_bcast_task A k kl \<in> set (tasks_of (iteration target A ib la k'))
     \<longleftrightarrow> k' = k \<and> kl = k + 1 + la \<and> k + 1 + la < nt A"
    if "0 \<le> k'" "k' < nt A" for k'
    unfolding set_iteration_tasks [OF assms that]
    using trailing_bcast_task_eqD [of A k kl k' "k' + 1 + la"]
    by (auto simp: task_defs)
  then show ?thesis
    unfolding omp_task_mem set_generic_tasks by auto
qed

lemma mem_trailing_gemm:
  assumes "0 \<le> la" "nt A + la < 2 ^ 63"
  shows "omp_task (trailing_gemm_task t A k kl) \<in> set (getrf_nopiv_generic target A ib m la)
     \<longleftrightarrow> t = target \<and> 0 \<le> k \<and> k \<le> min (mt A) (nt A) - 1 \<and> kl = k + 1 + la \<and> k + 1 + la < nt A"
proof -
  have "trailing_gemm_task t A k kl \<in> set (tasks_of (iteration target A ib la k'))
     \<longleftrightarrow> t = target \<and> k' = k \<and> kl = k + 1 + la \<and> k + 1 + la < nt A"
    if "0 \<le> k'" "k' < nt A" for k'
    unfolding set_iteration_tasks [OF assms that]
    by (auto simp: task_defs)
  then show ?thesis
    unfolding omp_task_mem set_generic_tasks by auto
qed

text \<open>
  C6. With a lookahead that is not negative and keeps \<^verbatim>\<open>k+1+lookahead\<close> in range:
  the panel kernel is called for the diagonal tiles 0, 1, ..., min(Mt, Nt) - 1 in
  this order; in round \<open>k\<close> the two lookahead tasks are submitted for exactly the
  columns \<open>k+1 .. min(k+lookahead, Nt-1)\<close>; the three trailing tasks are submitted
  exactly when \<open>k+1+lookahead < Nt\<close>; and the run ends, after all task
  submissions, with the wait for the tasks, the update of every tile's origin and
  the release of the workspace.
\<close>

theorem getrf_nopiv_generic_loop:
  assumes "0 \<le> la" "nt A + la < 2 ^ 63"
  shows "factored (getrf_nopiv_generic target A ib m la) = [0 .. min (mt A) (nt A) - 1]
    \<and> (\<forall>k j. omp_task (lookahead_trsm_task A k j) \<in> set (getrf_nopiv_generic target A ib m la)
         \<longleftrightarrow> 0 \<le> k \<and> k \<le> min (mt A) (nt A) - 1 \<and> k + 1 \<le> j \<and> j \<le> min (k + la) (nt A - 1))
    \<and> (\<forall>k j. omp_task (lookahead_gemm_task A k j) \<in> set (getrf_nopiv_generic target A ib m la)
         \<longleftrightarrow> 0 \<le> k \<and> k \<le> min (mt A) (nt A) - 1 \<and> k + 1 \<le> j \<and> j \<le> min (k + la) (nt A - 1))
    \<and> (\<forall>k kl. omp_task (trailing_trsm_task A k kl) \<in> set (getrf_nopiv_generic target A ib m la)
         \<longleftrightarrow> 0 \<le> k \<and> k \<le> min (mt A) (nt A) - 1 \<and> kl = k + 1 + la \<and> k + 1 + la < nt A)
    \<and> (\<forall>k kl. omp_task (trailing_bcast_task A k kl) \<in> set (getrf_nopiv_generic target A ib m la)
         \<longleftrightarrow> 0 \<le> k \<and> k \<le> min (mt A) (nt A) - 1 \<and> kl = k + 1 + la \<and> k + 1 + la < nt A)
    \<and> (\<forall>t k kl. omp_task (trailing_gemm_task t A k kl) \<in> set (getrf_nopiv_generic target A ib m la)
         \<longleftrightarrow> t = target \<and> 0 \<le> k \<and> k \<le> min (mt A) (nt A) - 1 \<and> kl = k + 1 + la
             \<and> k + 1 + la < nt A)
    \<and> (\<exists>tasks. getrf_nopiv_generic target A ib m la =
          master (omp_set_nested 1) # map omp_task tasks
          @ [omp_taskwait, master tileUpdateAllOrigin, master clearWorkspace])"
proof -
  have "\<exists>tasks. getrf_nopiv_generic target A ib m la =
          master (omp_set_nested 1) # map omp_task tasks
          @ [omp_taskwait, master tileUpdateAllOrigin, master clearWorkspace]"
    using generic_shape by blast
  then show ?thesis
    by (simp only: factored_generic mem_lookahead_trsm [OF assms] mem_lookahead_gemm [OF assms]
      mem_trailing_trsm [OF assms] mem_trailing_bcast [OF assms] mem_trailing_gemm [OF assms]
      simp_thms)
qed

lemma A22_simps: "mt A22 = 2" "nt A22 = 2"
  by (simp_all add: A22_def)

theorem getrf_nopiv_generic_loop_witness:
  "(0::int) \<le> 1 \<and> nt A22 + 1 < 2 ^ 63
   \<and> factored (getrf_nopiv_generic HostTask A22 16 2 1) = [0, 1]
   \<and> omp_task (lookahead_trsm_task A22 0 1) \<in> set (getrf_nopiv_generic HostTask A22 16 2 1)
   \<and> omp_task (lookahead_gemm_task A22 0 1) \<in> set (getrf_nopiv_generic HostTask A22 16 2 1)
   \<and> omp_task (lookahead_trsm_task A22 1 2) \<notin> set (getrf_nopiv_generic HostTask A22 16 2 1)
   \<and> omp_task (trailing_trsm_task A22 0 2) \<notin> set (getrf_nopiv_generic HostTask A22 16 2 1)
   \<and> omp_task (trailing_gemm_task HostTask A22 0 1) \<in> set (getrf_nopiv_generic HostTask A22 16 2 0)"
proof -
  have h: "(0::int) \<le> 1" "nt A22 + 1 < 2 ^ 63" "(0::int) \<le> 0" "nt A22 + 0 < 2 ^ 63"
    by (simp_all add: A22_simps)
  note T1 = getrf_nopiv_generic_loop [OF h(1,2), of HostTask 16 2]
  note T0 = getrf_nopiv_generic_loop [OF h(3,4), of HostTask 16 2]
  have "factored (getrf_nopiv_generic HostTask A22 16 2 1) = [0, 1]"
    using T1 by (simp add: A22_simps upto_rec1)
  moreover have "omp_task (lookahead_trsm_task A22 0 1) \<in> set (getrf_nopiv_generic HostTask A22 16 2 1)"
    using T1 by (simp add: A22_simps)
  moreover have "omp_task (lookahead_gemm_task A22 0 1) \<in> set (getrf_nopiv_generic HostTask A22 16 2 1)"
    using T1 by (simp add: A22_simps)
  moreover have "omp_task (lookahead_trsm_task A22 1 2) \<notin> set (getrf_nopiv_generic HostTask A22 16 2 1)"
    using T1 by (simp add: A22_simps)
  moreover have "omp_task (trailing_trsm_task A22 0 2) \<notin> set (getrf_nopiv_generic HostTask A22 16 2 1)"
    using T1 by (simp add: A22_simps)
  moreover have "omp_task (trailing_gemm_task HostTask A22 0 1) \<in> set (getrf_nopiv_generic HostTask A22 16 2 0)"
    using T0 by (simp add: A22_simps)
  ultimately show ?thesis using h by simp
qed

section \<open>Ordering of tasks\<close>

lemma ordered_less: "ordered ts i j \<Longrightarrow> i < j \<and> j < length ts"
  by (induction rule: ordered.induct) auto

lemma ordered_last:
  "ordered ts i j \<Longrightarrow> \<exists>m. i \<le> m \<and> m < j \<and> conflicts (ts ! m) (ts ! j)"
proof (induction rule: ordered.induct)
  case (dependent i j)
  then show ?case by auto
next
  case (chain i m j)
  then obtain m' where "m \<le> m'" "m' < j" "conflicts (ts ! m') (ts ! j)" by blast
  moreover from chain.hyps(1) have "i < m" by (simp add: ordered_less)
  ultimately show ?case by (intro exI [of _ m']) simp
qed

text \<open>
  A chain from \<open>i\<close> to \<open>j\<close> ends with a dependence of \<open>j\<close> on some \<open>m\<close> that is
  \<open>i\<close> or is ordered after \<open>i\<close>; this equation also computes the relation.
\<close>

lemma ordered_unfold [code]:
  "ordered ts i j \<longleftrightarrow>
     i < j \<and> j < length ts
     \<and> (\<exists>m \<in> set [i..<j]. (m = i \<or> ordered ts i m) \<and> conflicts (ts ! m) (ts ! j))"
proof
  assume "ordered ts i j"
  then show "i < j \<and> j < length ts
     \<and> (\<exists>m \<in> set [i..<j]. (m = i \<or> ordered ts i m) \<and> conflicts (ts ! m) (ts ! j))"
  proof (induction rule: ordered.induct)
    case (dependent i j)
    then show ?case by auto
  next
    case (chain i m j)
    from chain.IH(2) obtain m'
      where m': "m \<le> m'" "m' < j" "m' = m \<or> ordered ts m m'" "conflicts (ts ! m') (ts ! j)"
      by auto
    from chain.IH(1) have im: "i < m" by simp
    from m'(3) chain.hyps(1) have "ordered ts i m'"
      by (auto intro: ordered.chain)
    with m' im chain.IH(2) show ?case by auto
  qed
next
  assume a: "i < j \<and> j < length ts
     \<and> (\<exists>m \<in> set [i..<j]. (m = i \<or> ordered ts i m) \<and> conflicts (ts ! m) (ts ! j))"
  then obtain m where m: "i \<le> m" "m < j" "m = i \<or> ordered ts i m" "conflicts (ts ! m) (ts ! j)"
    by auto
  from a m have mj: "ordered ts m j" by (intro ordered.dependent) auto
  from m(3) show "ordered ts i j"
  proof
    assume "m = i"
    with mj show ?thesis by simp
  next
    assume "ordered ts i m"
    then show ?thesis using mj by (rule ordered.chain)
  qed
qed

lemma not_ordered_segment:
  assumes ts: "ts = pre @ x # mid @ y # post"
    and free: "\<forall>t \<in> set (x # mid). \<not> conflicts t y"
  shows "\<not> ordered ts (length pre) (length pre + 1 + length mid)"
proof
  assume "ordered ts (length pre) (length pre + 1 + length mid)"
  from ordered_last [OF this] obtain m
    where m: "length pre \<le> m" "m < length pre + 1 + length mid"
      and c: "conflicts (ts ! m) (ts ! (length pre + 1 + length mid))"
    by blast
  have y: "ts ! (length pre + 1 + length mid) = y"
    by (simp add: ts nth_append)
  have "ts ! m = (x # mid) ! (m - length pre)"
    using m by (simp add: ts nth_append nth_Cons split: nat.splits)
  moreover have "m - length pre < length (x # mid)"
    using m by simp
  ultimately have "ts ! m \<in> set (x # mid)"
    by (metis nth_mem)
  with free c y show False by auto
qed

lemma lookahead_trsm_free:
  assumes "k < j"
  shows "\<not> conflicts (panel_bcast_task A k) (lookahead_trsm_task A k j)"
    and "j' < j \<Longrightarrow> \<not> conflicts (lookahead_trsm_task A k j') (lookahead_trsm_task A k j)"
    and "j' < j \<Longrightarrow> \<not> conflicts (lookahead_gemm_task A k j') (lookahead_trsm_task A k j)"
  using assms by (auto simp: conflicts_def task_defs)

lemma generic_tasks_split:
  assumes "0 \<le> la" "nt A + la < 2 ^ 63" "0 \<le> k" "k \<le> min (mt A) (nt A) - 1"
    "k + 1 \<le> j" "j \<le> min (k + la) (nt A - 1)"
  shows "tasks_of (getrf_nopiv_generic target A ib m la) =
     (for_range 0 k (\<lambda>k. tasks_of (iteration target A ib la k))
        @ [panel_task A ib k, panel_trsm_task A k])
     @ panel_bcast_task A k
     # for_range (k + 1) j (\<lambda>j. [lookahead_trsm_task A k j, lookahead_gemm_task A k j])
     @ lookahead_trsm_task A k j
     # (lookahead_gemm_task A k j
        # for_range (j + 1) (min (k + 1 + la) (nt A))
            (\<lambda>j. [lookahead_trsm_task A k j, lookahead_gemm_task A k j])
        @ (if k + 1 + la < nt A
           then [trailing_trsm_task A k (k + 1 + la), trailing_bcast_task A k (k + 1 + la),
                 trailing_gemm_task target A k (k + 1 + la)]
           else [])
        @ for_range (k + 1) (min (mt A) (nt A)) (\<lambda>k. tasks_of (iteration target A ib la k)))"
proof -
  have k: "0 \<le> k" "k < min (mt A) (nt A)" "k < nt A" using assms by auto
  have j: "k + 1 \<le> j" "j < min (k + 1 + la) (nt A)" using assms by auto
  have kl: "add64 (k + 1) la = k + 1 + la"
    by (rule kl_id [OF assms(1,2) k(1,3)])
  show ?thesis
    unfolding generic_tasks
    by (simp add: for_range_split [OF k(1,2)] iteration_tasks [of target A ib la k] kl
        for_range_split [OF j])
qed

text \<open>
  C5. For a round \<open>k\<close> and a lookahead column \<open>j\<close> of it, the lookahead
  \<^verbatim>\<open>trsm\<close> task is submitted with the dependences \<^verbatim>\<open>in:diag[k]\<close> and
  \<^verbatim>\<open>inout:column[j]\<close> and nothing else, so neither \<^verbatim>\<open>column[k]\<close> nor
  \<^verbatim>\<open>mpi_bandwidth\<close>; the panel broadcast task of the round has
  \<^verbatim>\<open>inout:column[k]\<close> and \<^verbatim>\<open>inout:mpi_bandwidth\<close>. The two tasks do not
  conflict, and no chain of dependences through the tasks submitted between them
  orders one before the other.
\<close>

theorem lookahead_trsm_overlaps_panel_bcast:
  assumes "0 \<le> la" "nt A + la < 2 ^ 63" "0 \<le> k" "k \<le> min (mt A) (nt A) - 1"
    "k + 1 \<le> j" "j \<le> min (k + la) (nt A - 1)"
  shows "omp_task (lookahead_trsm_task A k j) \<in> set (getrf_nopiv_generic target A ib m la)
    \<and> depends (lookahead_trsm_task A k j) = [depend_in (diag k), depend_inout (column j)]
    \<and> depends (panel_bcast_task A k) = [depend_inout (column k), depend_inout mpi_bandwidth]
    \<and> \<not> conflicts (panel_bcast_task A k) (lookahead_trsm_task A k j)
    \<and> (\<exists>pre mid post.
          tasks_of (getrf_nopiv_generic target A ib m la) =
            pre @ panel_bcast_task A k # mid @ lookahead_trsm_task A k j # post
          \<and> \<not> ordered (tasks_of (getrf_nopiv_generic target A ib m la))
                (length pre) (length pre + 1 + length mid)
          \<and> \<not> ordered (tasks_of (getrf_nopiv_generic target A ib m la))
                (length pre + 1 + length mid) (length pre))"
proof -
  let ?ts = "tasks_of (getrf_nopiv_generic target A ib m la)"
  let ?mid = "for_range (k + 1) j (\<lambda>j. [lookahead_trsm_task A k j, lookahead_gemm_task A k j])"
  have kj: "k < j" using assms by simp
  have sub: "omp_task (lookahead_trsm_task A k j) \<in> set (getrf_nopiv_generic target A ib m la)"
    using assms by (simp add: mem_lookahead_trsm)
  have free: "\<forall>t \<in> set (panel_bcast_task A k # ?mid). \<not> conflicts t (lookahead_trsm_task A k j)"
    using lookahead_trsm_free [OF kj, where A = A] by (auto simp: set_for_range)
  note split = generic_tasks_split [OF assms, of target ib m]
  have no1: "\<not> ordered ?ts (length (for_range 0 k (\<lambda>k. tasks_of (iteration target A ib la k))
        @ [panel_task A ib k, panel_trsm_task A k]))
      (length (for_range 0 k (\<lambda>k. tasks_of (iteration target A ib la k))
        @ [panel_task A ib k, panel_trsm_task A k]) + 1 + length ?mid)"
    by (rule not_ordered_segment [OF split free])
  have no2: "\<not> ordered ?ts (p + 1 + q) p" for p q
    using ordered_less [of ?ts "p + 1 + q" p] by auto
  from split no1 no2 have "\<exists>pre mid post.
          ?ts = pre @ panel_bcast_task A k # mid @ lookahead_trsm_task A k j # post
          \<and> \<not> ordered ?ts (length pre) (length pre + 1 + length mid)
          \<and> \<not> ordered ?ts (length pre + 1 + length mid) (length pre)"
    by blast
  with sub lookahead_trsm_free(1) [OF kj] show ?thesis
    by (simp add: lookahead_trsm_task_def panel_bcast_task_def)
qed


theorem lookahead_trsm_overlaps_panel_bcast_witness:
  "omp_task (lookahead_trsm_task A22 0 1) \<in> set (getrf_nopiv_generic HostTask A22 16 2 1)
   \<and> depends (lookahead_trsm_task A22 0 1) = [depend_in (diag 0), depend_inout (column 1)]
   \<and> depends (panel_bcast_task A22 0) = [depend_inout (column 0), depend_inout mpi_bandwidth]
   \<and> \<not> conflicts (panel_bcast_task A22 0) (lookahead_trsm_task A22 0 1)
   \<and> (\<exists>pre mid post.
          tasks_of (getrf_nopiv_generic HostTask A22 16 2 1) =
            pre @ panel_bcast_task A22 0 # mid @ lookahead_trsm_task A22 0 1 # post
          \<and> \<not> ordered (tasks_of (getrf_nopiv_generic HostTask A22 16 2 1))
                (length pre) (length pre + 1 + length mid)
          \<and> \<not> ordered (tasks_of (getrf_nopiv_generic HostTask A22 16 2 1))
                (length pre + 1 + length mid) (length pre))"
proof -
  have h: "(0::int) \<le> 1" "nt A22 + 1 < 2 ^ 63" "(0::int) \<le> 0" "0 \<le> min (mt A22) (nt A22) - 1"
    "(0::int) + 1 \<le> 1" "1 \<le> min (0 + 1) (nt A22 - 1)"
    by (simp_all add: A22_simps)
  show ?thesis
    by (rule lookahead_trsm_overlaps_panel_bcast [OF h])
qed

section \<open>Broadcast tags\<close>

lemma for_range_map: "for_range lo hi (\<lambda>x. [f x]) = map f [lo..hi - 1]"
proof -
  have "concat (map (\<lambda>x. [f x]) xs) = map f xs" for xs
    by (induction xs) simp_all
  then show ?thesis by (simp add: for_range_def)
qed

lemma bcasts_of_task_simps:
  "bcasts_of_task (panel_task A ib k) =
     [\<lparr>src = (k, k), dests = [sub (k + 1) (mt A - 1) k k, sub k k (k + 1) (nt A - 1)],
       tag = wrap32 k\<rparr>]"
  "bcasts_of_task (panel_trsm_task A k) = []"
  "bcasts_of_task (panel_bcast_task A k) =
     map (\<lambda>i. \<lparr>src = (i, k), dests = [sub i i (k + 1) (nt A - 1)], tag = i\<rparr>) [k + 1..mt A - 1]"
  "bcasts_of_task (lookahead_trsm_task A k j) =
     [\<lparr>src = (k, j), dests = [sub (k + 1) (mt A - 1) j j], tag = wrap32 j\<rparr>]"
  "bcasts_of_task (lookahead_gemm_task A k j) = []"
  "bcasts_of_task (trailing_trsm_task A k kl) = []"
  "bcasts_of_task (trailing_bcast_task A k kl) =
     map (\<lambda>j. \<lparr>src = (k, j), dests = [sub (k + 1) (mt A - 1) j j], tag = add64 j (mt A)\<rparr>)
       [kl..nt A - 1]"
  "bcasts_of_task (trailing_gemm_task target A k kl) = []"
  by (simp_all add: bcasts_of_task_def task_defs for_range_map comp_def)

lemma bcasts_of_iteration:
  "bcasts_of (iteration target A ib la k) =
     \<lparr>src = (k, k), dests = [sub (k + 1) (mt A - 1) k k, sub k k (k + 1) (nt A - 1)],
       tag = wrap32 k\<rparr>
     # map (\<lambda>i. \<lparr>src = (i, k), dests = [sub i i (k + 1) (nt A - 1)], tag = i\<rparr>) [k + 1..mt A - 1]
     @ map (\<lambda>j. \<lparr>src = (k, j), dests = [sub (k + 1) (mt A - 1) j j], tag = wrap32 j\<rparr>)
         [k + 1..min (add64 (k + 1) la) (nt A) - 1]
     @ map (\<lambda>j. \<lparr>src = (k, j), dests = [sub (k + 1) (mt A - 1) j j], tag = add64 j (mt A)\<rparr>)
         [add64 (k + 1) la..nt A - 1]"
  by (auto simp: bcasts_of_def iteration_tasks bcasts_of_task_simps concat_map_for_range
      for_range_map)


lemma bcasts_of_iteration_in_range:
  assumes "0 \<le> k" "k \<le> min (mt A) (nt A) - 1" "0 \<le> la" "nt A + la < 2 ^ 63"
    "mt A + nt A < 2 ^ 31"
  shows "bcasts_of (iteration target A ib la k) =
     \<lparr>src = (k, k), dests = [sub (k + 1) (mt A - 1) k k, sub k k (k + 1) (nt A - 1)], tag = k\<rparr>
     # map (\<lambda>i. \<lparr>src = (i, k), dests = [sub i i (k + 1) (nt A - 1)], tag = i\<rparr>) [k + 1..mt A - 1]
     @ map (\<lambda>j. \<lparr>src = (k, j), dests = [sub (k + 1) (mt A - 1) j j], tag = j\<rparr>)
         [k + 1..min (k + la) (nt A - 1)]
     @ map (\<lambda>j. \<lparr>src = (k, j), dests = [sub (k + 1) (mt A - 1) j j], tag = j + mt A\<rparr>)
         [k + 1 + la..nt A - 1]"
proof -
  have k: "k < mt A" "k < nt A" using assms(2) by auto
  have kl: "add64 (k + 1) la = k + 1 + la"
    by (rule kl_id [OF assms(3,4,1) k(2)])
  have w: "wrap32 j = j" if "0 \<le> j" "j < nt A" for j
    using that assms(5) k assms(1) by (intro wrap32_id) auto
  have a: "add64 j (mt A) = j + mt A" if "0 \<le> j" "j < nt A" for j
    using that assms(5) k assms(1) by (intro add64_id) auto
  have m: "min (k + 1 + la) (nt A) - 1 = min (k + la) (nt A - 1)" by auto
  show ?thesis
    unfolding bcasts_of_iteration kl m
    using assms(1,3) k by (auto simp: w a)
qed

lemma set_tiles_of_view: "set (tiles_of_view (sub i1 i2 j1 j2)) = {i1..i2} \<times> {j1..j2}"
  by auto

lemma mem_messages:
  "x \<in> set (messages rank b) \<longleftrightarrow>
   (\<exists>v \<in> set (dests b). \<exists>d \<in> set (tiles_of_view v).
      x = (rank (src b), rank d, tag b) \<and> rank (src b) \<noteq> rank d)"
  by (auto simp: messages_def triples_def)

lemma messages_disjoint_tag:
  "tag b1 \<noteq> tag b2 \<Longrightarrow> set (messages rank b1) \<inter> set (messages rank b2) = {}"
  by (auto simp: mem_messages)

lemma messages_row_col_disjoint:
  "set (messages (block_cyclic P Q) \<lparr>src = (i, k), dests = [sub i i j1 j2], tag = t\<rparr>)
   \<inter> set (messages (block_cyclic P Q) \<lparr>src = (k, j), dests = [sub i1 i2 j j], tag = t'\<rparr>) = {}"
proof (rule ccontr)
  assume "\<not> ?thesis"
  then obtain x
    where x: "x \<in> set (messages (block_cyclic P Q)
                \<lparr>src = (i, k), dests = [sub i i j1 j2], tag = t\<rparr>)"
      "x \<in> set (messages (block_cyclic P Q)
                \<lparr>src = (k, j), dests = [sub i1 i2 j j], tag = t'\<rparr>)"
    by blast
  from x(1) obtain c where c: "x = ((i mod P, k mod Q), (i mod P, c mod Q), t)"
    "(i mod P, k mod Q) \<noteq> (i mod P, c mod Q)"
    by (auto simp: mem_messages block_cyclic_def)
  from x(2) obtain r where r: "x = ((k mod P, j mod Q), (r mod P, j mod Q), t')"
    "(k mod P, j mod Q) \<noteq> (r mod P, j mod Q)"
    by (auto simp: mem_messages block_cyclic_def)
  from c r show False by auto
qed

lemma iteration_messages_collision_free:
  assumes "0 \<le> k" "k \<le> min (mt A) (nt A) - 1" "0 \<le> la" "nt A + la < 2 ^ 63"
    "mt A + nt A < 2 ^ 31"
  shows "collision_free (messages (block_cyclic P Q)) (bcasts_of (iteration target A ib la k))"
proof -
  let ?bs = "bcasts_of (iteration target A ib la k)"
  let ?M = "\<lambda>b. set (messages (block_cyclic P Q) b)"
  let ?panel = "\<lparr>src = (k, k),
      dests = [sub (k + 1) (mt A - 1) k k, sub k k (k + 1) (nt A - 1)], tag = k\<rparr>"
  let ?row = "\<lambda>i. \<lparr>src = (i, k), dests = [sub i i (k + 1) (nt A - 1)], tag = i\<rparr>"
  let ?col = "\<lambda>j. \<lparr>src = (k, j), dests = [sub (k + 1) (mt A - 1) j j], tag = j\<rparr>"
  let ?tcol = "\<lambda>j. \<lparr>src = (k, j), dests = [sub (k + 1) (mt A - 1) j j], tag = j + mt A\<rparr>"
  note eq = bcasts_of_iteration_in_range [OF assms, of target ib]
  have mt: "0 \<le> mt A" using assms(1,2) by auto
  have d: "distinct ?bs"
    unfolding eq using assms(1,3) mt by (auto simp: distinct_map inj_on_def)
  have kinds: "b = ?panel
      \<or> (\<exists>i. k + 1 \<le> i \<and> i \<le> mt A - 1 \<and> b = ?row i)
      \<or> (\<exists>j. k + 1 \<le> j \<and> j \<le> min (k + la) (nt A - 1) \<and> b = ?col j)
      \<or> (\<exists>j. k + 1 + la \<le> j \<and> j \<le> nt A - 1 \<and> b = ?tcol j)"
    if "b \<in> set ?bs" for b
    using that unfolding eq by auto
  have p: "?M b1 \<inter> ?M b2 = {}" if b: "b1 \<in> set ?bs" "b2 \<in> set ?bs" "b1 \<noteq> b2" for b1 b2
  proof -
    consider (tags) "tag b1 \<noteq> tag b2"
      | (rc) i j where "b1 = ?row i" "b2 = ?col j"
      | (cr) i j where "b1 = ?col j" "b2 = ?row i"
      using kinds [OF b(1)] kinds [OF b(2)] b(3) assms(1,3) mt
      by (elim disjE exE conjE) auto
    then show ?thesis
    proof cases
      case tags
      then show ?thesis by (rule messages_disjoint_tag)
    next
      case rc
      then show ?thesis by (simp only: messages_row_col_disjoint)
    next
      case cr
      then show ?thesis by (simp only: Int_commute [of "?M (?col j)"] messages_row_col_disjoint)
    qed
  qed
  from d p show ?thesis by (simp add: collision_free_def)
qed


text \<open>
  C4, as the code has it. In round \<open>k\<close> the panel row broadcast of A(i,k) carries
  tag \<open>i\<close>, the lookahead broadcast of A(k,j) tag \<open>j\<close> and the trailing broadcast
  of A(k,j) tag \<open>j + Mt\<close> (tile counts below 2^31, so that no tag wraps). Under the
  block-cyclic owner, no broadcast of the round is issued twice and no two of them
  share a triple whose source and destination are different processes.
\<close>

theorem iteration_broadcast_tags:
  assumes "0 \<le> k" "k \<le> min (mt A) (nt A) - 1" "0 \<le> la" "nt A + la < 2 ^ 63"
    "mt A + nt A < 2 ^ 31"
  shows "bcasts_of_task (panel_bcast_task A k) =
       map (\<lambda>i. \<lparr>src = (i, k), dests = [sub i i (k + 1) (nt A - 1)], tag = i\<rparr>)
         [k + 1..mt A - 1]
    \<and> (\<forall>j. k + 1 \<le> j \<and> j \<le> min (k + la) (nt A - 1) \<longrightarrow>
         bcasts_of_task (lookahead_trsm_task A k j) =
           [\<lparr>src = (k, j), dests = [sub (k + 1) (mt A - 1) j j], tag = j\<rparr>])
    \<and> bcasts_of_task (trailing_bcast_task A k (add64 (k + 1) la)) =
       map (\<lambda>j. \<lparr>src = (k, j), dests = [sub (k + 1) (mt A - 1) j j], tag = j + mt A\<rparr>)
         [k + 1 + la..nt A - 1]
    \<and> collision_free (messages (block_cyclic P Q)) (bcasts_of (iteration target A ib la k))"
proof -
  have k: "k < mt A" "k < nt A" using assms(2) by auto
  have kl: "add64 (k + 1) la = k + 1 + la"
    by (rule kl_id [OF assms(3,4,1) k(2)])
  have w: "wrap32 j = j" if "0 \<le> j" "j < nt A" for j
    using that assms(5) k assms(1) by (intro wrap32_id) auto
  have a: "add64 j (mt A) = j + mt A" if "0 \<le> j" "j < nt A" for j
    using that assms(5) k assms(1) by (intro add64_id) auto
  have "bcasts_of_task (lookahead_trsm_task A k j) =
           [\<lparr>src = (k, j), dests = [sub (k + 1) (mt A - 1) j j], tag = j\<rparr>]"
    if "k + 1 \<le> j" "j \<le> min (k + la) (nt A - 1)" for j
    using that assms(1) by (simp add: bcasts_of_task_simps w)
  moreover have "bcasts_of_task (trailing_bcast_task A k (add64 (k + 1) la)) =
       map (\<lambda>j. \<lparr>src = (k, j), dests = [sub (k + 1) (mt A - 1) j j], tag = j + mt A\<rparr>)
         [k + 1 + la..nt A - 1]"
    using assms(1,3) by (simp add: bcasts_of_task_simps kl a)
  ultimately show ?thesis
    using iteration_messages_collision_free [OF assms]
    by (simp add: bcasts_of_task_simps)
qed

lemma A44_simps: "mt A44 = 4" "nt A44 = 4"
  by (simp_all add: A44_def)

theorem iteration_broadcast_tags_witness:
  "bcasts_of_task (panel_bcast_task A44 0) =
       map (\<lambda>i. \<lparr>src = (i, 0), dests = [sub i i 1 3], tag = i\<rparr>) [1..3]
   \<and> bcasts_of_task (lookahead_trsm_task A44 0 1) =
       [\<lparr>src = (0, 1), dests = [sub 1 3 1 1], tag = 1\<rparr>]
   \<and> bcasts_of_task (trailing_bcast_task A44 0 (add64 1 1)) =
       map (\<lambda>j. \<lparr>src = (0, j), dests = [sub 1 3 j j], tag = j + 4\<rparr>) [2..3]
   \<and> collision_free (messages (block_cyclic 1 2)) (bcasts_of (iteration HostTask A44 16 1 0))"
proof -
  have h: "(0::int) \<le> 0" "0 \<le> min (mt A44) (nt A44) - 1" "(0::int) \<le> 1"
    "nt A44 + 1 < 2 ^ 63" "mt A44 + nt A44 < 2 ^ 31"
    by (simp_all add: A44_simps)
  show ?thesis
    using iteration_broadcast_tags [OF h, of 1 2 HostTask 16]
    by (simp add: A44_simps)
qed

text \<open>
  C4 as stated fails. On one process (a 1 by 1 grid), with 2 by 2 tiles and
  lookahead 1, round 0 sends A(1,0) along row 1 and A(0,1) down column 1, both to
  the owner of tile (1,1) and both with tag 1: the two broadcasts use the same
  triple. With an owner other than the block-cyclic one the shared triple can be a
  message between two processes.
\<close>

theorem single_process_tag_collision:
  "bcasts_of (iteration HostTask A22 16 1 0) =
     [\<lparr>src = (0, 0), dests = [sub 1 1 0 0, sub 0 0 1 1], tag = 0\<rparr>,
      \<lparr>src = (1, 0), dests = [sub 1 1 1 1], tag = 1\<rparr>,
      \<lparr>src = (0, 1), dests = [sub 1 1 1 1], tag = 1\<rparr>]
   \<and> triples (block_cyclic 1 1) \<lparr>src = (1, 0), dests = [sub 1 1 1 1], tag = 1\<rparr>
       = [((0, 0), (0, 0), 1)]
   \<and> triples (block_cyclic 1 1) \<lparr>src = (0, 1), dests = [sub 1 1 1 1], tag = 1\<rparr>
       = [((0, 0), (0, 0), 1)]
   \<and> \<not> collision_free (triples (block_cyclic 1 1)) (bcasts_of (iteration HostTask A22 16 1 0))
   \<and> messages owner_11 \<lparr>src = (1, 0), dests = [sub 1 1 1 1], tag = 1\<rparr> = [(0, 1, 1)]
   \<and> messages owner_11 \<lparr>src = (0, 1), dests = [sub 1 1 1 1], tag = 1\<rparr> = [(0, 1, 1)]
   \<and> \<not> collision_free (messages owner_11) (bcasts_of (iteration HostTask A22 16 1 0))"
proof -
  have bs: "bcasts_of (iteration HostTask A22 16 1 0) =
     [\<lparr>src = (0, 0), dests = [sub 1 1 0 0, sub 0 0 1 1], tag = 0\<rparr>,
      \<lparr>src = (1, 0), dests = [sub 1 1 1 1], tag = 1\<rparr>,
      \<lparr>src = (0, 1), dests = [sub 1 1 1 1], tag = 1\<rparr>]"
    by (simp add: bcasts_of_iteration A22_simps add64_def wrap64_def wrap32_def)
  have t1: "triples (block_cyclic 1 1) \<lparr>src = (1, 0), dests = [sub 1 1 1 1], tag = 1\<rparr>
       = [((0, 0), (0, 0), 1)]"
    by (simp add: triples_def block_cyclic_def)
  have t2: "triples (block_cyclic 1 1) \<lparr>src = (0, 1), dests = [sub 1 1 1 1], tag = 1\<rparr>
       = [((0, 0), (0, 0), 1)]"
    by (simp add: triples_def block_cyclic_def)
  have m1: "messages owner_11 \<lparr>src = (1, 0), dests = [sub 1 1 1 1], tag = 1\<rparr> = [(0, 1, 1)]"
    by (simp add: messages_def triples_def owner_11_def)
  have m2: "messages owner_11 \<lparr>src = (0, 1), dests = [sub 1 1 1 1], tag = 1\<rparr> = [(0, 1, 1)]"
    by (simp add: messages_def triples_def owner_11_def)
  have c1: "\<not> collision_free (triples (block_cyclic 1 1)) (bcasts_of (iteration HostTask A22 16 1 0))"
    unfolding bs collision_free_def using t1 t2 by simp
  have c2: "\<not> collision_free (messages owner_11) (bcasts_of (iteration HostTask A22 16 1 0))"
    unfolding bs collision_free_def using m1 m2 by simp
  from bs t1 t2 m1 m2 c1 c2 show ?thesis by simp
qed

section \<open>A singular input\<close>

lemma scenario_D_simps: "mt scenario_D = 2" "nt scenario_D = 2"
  by (simp_all add: scenario_D_def)

text \<open>
  The driver does not look at the entries: what it does is the same for every
  content of the matrix.
\<close>

lemma getrf_nopiv_entries_unread:
  "getrf_nopiv rt (A\<lparr>entries := e\<rparr>) opts = getrf_nopiv rt A opts"
proof -
  have g: "iteration target (A\<lparr>entries := e\<rparr>) ib la = iteration target A ib la"
    for target ib la
    by (rule ext) (simp add: iteration_def task_defs)
  have d: "dev_iteration (A\<lparr>entries := e\<rparr>) ib la = dev_iteration A ib la" for ib la
    by (rule ext)
      (simp add: dev_iteration_def dev_panel_task_def dev_panel_trsm_task_def
        dev_panel_bcast_task_def dev_lookahead_trsm_task_def dev_lookahead_gemm_task_def
        dev_trailing_trsm_task_def dev_trailing_bcast_task_def dev_trailing_gemm_task_def
        dev_release_diag_task_def dev_release_column_task_def dev_set_def cong: if_cong)
  have "specialization_getrf_nopiv target (A\<lparr>entries := e\<rparr>) ib m la
      = specialization_getrf_nopiv target A ib m la" for target ib m la
    by (simp add: specialization_getrf_nopiv_def getrf_nopiv_generic_def getrf_nopiv_Devices_def
        g d)
  then have "getrf_nopiv_target rt target (A\<lparr>entries := e\<rparr>) opts
      = getrf_nopiv_target rt target A opts" for target
    by (simp add: getrf_nopiv_target_def split: sum.splits)
  then show ?thesis
    by (simp add: getrf_nopiv_def Let_def)
qed

text \<open>
  C2. On the singular matrix of scenario D, with no options, the call returns after
  exactly the events below. The panel kernel is called as a statement, nothing it
  finds comes back to the driver, and no call of the run reports the zero pivot of
  column 1: the return value that the function's own documentation promises for an
  exactly zero U(i,i) does not exist.
\<close>

theorem getrf_nopiv_scenario_D:
  "getrf_nopiv rt4 scenario_D Map.empty =
     Returned
       [master (omp_set_nested 1),
        omp_task (panel_task scenario_D 16 0),
        omp_task (panel_trsm_task scenario_D 0),
        omp_task (panel_bcast_task scenario_D 0),
        omp_task (lookahead_trsm_task scenario_D 0 1),
        omp_task (lookahead_gemm_task scenario_D 0 1),
        omp_task (panel_task scenario_D 16 1),
        omp_task (panel_trsm_task scenario_D 1),
        omp_task (panel_bcast_task scenario_D 1),
        omp_taskwait,
        master tileUpdateAllOrigin,
        master clearWorkspace]"
  by (simp add: getrf_nopiv_def Let_def getrf_nopiv_target_def get_lookahead_def get_ib_def
      get_max_panel_threads_def specialization_getrf_nopiv_def getrf_nopiv_generic_def
      for_range_def iteration_def scenario_D_simps add64_def wrap64_def upto.simps int_div_def)

section \<open>The shims\<close>

lemmas shim_defs = slate_trmm_def slate_pposv_def slate_planhe_def call_driver_def
  slate_set_num_blas_threads_def logprintf_def Let_def

text \<open>
  C8, as the code has it. A call of \<^verbatim>\<open>slate_trmm\<close>, \<^verbatim>\<open>slate_pposv\<close> or
  \<^verbatim>\<open>slate_planhe\<close> that returns leaves the BLAS thread count as it found it,
  and the one driver call it made ran under a count of 1.
\<close>

theorem shims_restore_blas_threads_on_return:
  assumes "slate_trmm c sidestr uplostr transastr diagstr m n alpha a lda b ldb s = (Return out, s')
         \<or> slate_pposv c uplostr n nrhs a ia ja desca b ib jb descb s = (Return out, s')
         \<or> slate_planhe c normstr uplostr n a ia ja desca s = (Return out, s')"
  shows "num_blas_threads s' = num_blas_threads s
       \<and> (\<exists>dc. driver_calls s' = driver_calls s @ [(dc, 1)])"
  using assms
  by (elim disjE)
    (auto simp: shim_defs split: option.splits prod.splits if_splits)


lemma lib_simps:
  "char2side lib_ok (str0 ''L'') = Some Left"
  "char2uplo lib_ok (str0 ''U'') = Some Upper"
  "char2uplo lib_ok (str0 ''X'') = None"
  "char2op lib_ok (str0 ''N'') = Some NoTrans"
  "char2diag lib_ok (str0 ''N'') = Some NonUnit"
  "char2norm lib_ok (str0 ''M'') = Some Norm_Max"
  "Cblacs_gridinfo lib_ok x = (1, 2, 0, 0)"
  "slate_driver lib_ok dc = Some 5"
  "slate_set_verbose lib_ok = False"
  "slate_set_target lib_ok = HostTask"
  "slate_set_nb lib_ok = 256"
  "Target_to_int lib_ok HostTask = 84"
  by (simp_all add: lib_ok_def str0_def rt4_def)

lemma lib_throwing_simps:
  "char2side lib_throwing = char2side lib_ok"
  "char2uplo lib_throwing = char2uplo lib_ok"
  "char2op lib_throwing = char2op lib_ok"
  "char2diag lib_throwing = char2diag lib_ok"
  "char2norm lib_throwing = char2norm lib_ok"
  "Cblacs_gridinfo lib_throwing = Cblacs_gridinfo lib_ok"
  "slate_driver lib_throwing dc = None"
  "slate_set_verbose lib_throwing = False"
  "slate_set_target lib_throwing = HostTask"
  "slate_set_nb lib_throwing = 256"
  "Target_to_int lib_throwing HostTask = 84"
  by (simp_all add: lib_throwing_def lib_ok_def rt4_def)

lemma four_threads_simps:
  "num_blas_threads four_threads = 4" "mpi_initialized four_threads" "driver_calls four_threads = []"
  by (simp_all add: four_threads_def)

theorem shims_restore_blas_threads_on_return_witness:
  "slate_planhe lib_ok ''M'' ''U'' 8 100 1 1 desc8 four_threads
     = (Return \<lparr>retval = Some 5, info = None\<rparr>,
        snd (slate_planhe lib_ok ''M'' ''U'' 8 100 1 1 desc8 four_threads))
   \<and> num_blas_threads (snd (slate_planhe lib_ok ''M'' ''U'' 8 100 1 1 desc8 four_threads))
     = num_blas_threads four_threads
   \<and> (\<exists>dc. driver_calls (snd (slate_planhe lib_ok ''M'' ''U'' 8 100 1 1 desc8 four_threads))
           = driver_calls four_threads @ [(dc, 1)])"
proof -
  have r: "slate_planhe lib_ok ''M'' ''U'' 8 100 1 1 desc8 four_threads
     = (Return \<lparr>retval = Some 5, info = None\<rparr>,
        snd (slate_planhe lib_ok ''M'' ''U'' 8 100 1 1 desc8 four_threads))"
    by (simp add: shim_defs lib_simps)
  from r shims_restore_blas_threads_on_return [OF disjI2 [OF disjI2 [OF r]]]
  show ?thesis by simp
qed

text \<open>
  C8 as stated fails. The count is restored by the statement that follows the driver
  call and nowhere else: when the driver throws, or a character conversion before it
  does, a process that ran four BLAS threads is left with one.
\<close>

theorem shim_throw_leaves_blas_threads_clamped:
  "num_blas_threads four_threads = 4
   \<and> fst (slate_trmm lib_throwing ''L'' ''U'' ''N'' ''N'' 4 4 1 100 4 200 4 four_threads) = Throw
   \<and> num_blas_threads
        (snd (slate_trmm lib_throwing ''L'' ''U'' ''N'' ''N'' 4 4 1 100 4 200 4 four_threads)) = 1
   \<and> fst (slate_planhe lib_throwing ''M'' ''U'' 8 100 1 1 desc8 four_threads) = Throw
   \<and> num_blas_threads
        (snd (slate_planhe lib_throwing ''M'' ''U'' 8 100 1 1 desc8 four_threads)) = 1
   \<and> fst (slate_planhe lib_ok ''M'' ''X'' 8 100 1 1 desc8 four_threads) = Throw
   \<and> num_blas_threads
        (snd (slate_planhe lib_ok ''M'' ''X'' 8 100 1 1 desc8 four_threads)) = 1"
  by (simp add: shim_defs lib_simps lib_throwing_simps four_threads_simps)


text \<open>
  C9, as the code has it. With \<open>(Pa, Qa)\<close> the grid that the grid-info callback gives
  for the context of the descriptor, a ScaLAPACK-style shim that returns has made one
  driver call, on the view at offset \<open>(ia, ja)\<close> of the matrix built from the
  descriptor's size, leading dimension and block size, the grid and the world
  communicator, with the options \<open>Lookahead\<close> 1 and the configured \<open>Target\<close>.
  \<^verbatim>\<open>slate_pposv\<close> then stores 0 through \<^verbatim>\<open>info\<close>; \<^verbatim>\<open>slate_planhe\<close> returns
  the driver's norm and stores no diagnostic integer.
\<close>

theorem scalapack_shims_call_driver:
  assumes ga: "Cblacs_gridinfo c (desc_CTXT desca) = (Pa, Qa, rowa, cola)"
    and gb: "Cblacs_gridinfo c (desc_CTXT descb) = (Pb, Qb, rowb, colb)"
  shows "(slate_pposv c uplostr n nrhs a ia ja desca b ib jb descb s = (Return out, s') \<longrightarrow>
       (\<exists>uplo. char2uplo c (str0 uplostr) = Some uplo
          \<and> driver_calls s' = driver_calls s @
              [(posv
                  (slate_scalapack_submatrix n n
                     (HermitianMatrix_fromScaLAPACK uplo (desc_N desca) a (desc_LLD desca)
                        (desc_MB desca) Pa Qa MPI_COMM_WORLD) ia ja desca)
                  (slate_scalapack_submatrix n nrhs
                     (Matrix_fromScaLAPACK (desc_M descb) (desc_N descb) b (desc_LLD descb)
                        (desc_MB descb) Pb Qb MPI_COMM_WORLD) ib jb descb)
                  [Lookahead \<mapsto> 1, Target \<mapsto> Target_to_int c (slate_set_target c)], 1)])
       \<and> out = \<lparr>retval = None, info = Some 0\<rparr>)
    \<and> (slate_planhe c normstr uplostr n a ia ja desca s = (Return out, s') \<longrightarrow>
       (\<exists>uplo norm_kind. char2uplo c (str0 uplostr) = Some uplo
          \<and> char2norm c (str0 normstr) = Some norm_kind
          \<and> driver_calls s' = driver_calls s @
              [(norm norm_kind
                  (slate_scalapack_submatrix n n
                     (HermitianMatrix_fromScaLAPACK uplo (desc_N desca) a (desc_LLD desca)
                        (desc_MB desca) Pa Qa MPI_COMM_WORLD) ia ja desca)
                  [Target \<mapsto> Target_to_int c (slate_set_target c), Lookahead \<mapsto> 1], 1)]
          \<and> retval out = slate_driver c
                (norm norm_kind
                  (slate_scalapack_submatrix n n
                     (HermitianMatrix_fromScaLAPACK uplo (desc_N desca) a (desc_LLD desca)
                        (desc_MB desca) Pa Qa MPI_COMM_WORLD) ia ja desca)
                  [Target \<mapsto> Target_to_int c (slate_set_target c), Lookahead \<mapsto> 1])
          \<and> retval out \<noteq> None)
       \<and> info out = None)"
proof -
  have p: "slate_pposv c uplostr n nrhs a ia ja desca b ib jb descb s = (Return out, s') \<Longrightarrow>
       (\<exists>uplo. char2uplo c (str0 uplostr) = Some uplo
          \<and> driver_calls s' = driver_calls s @
              [(posv
                  (slate_scalapack_submatrix n n
                     (HermitianMatrix_fromScaLAPACK uplo (desc_N desca) a (desc_LLD desca)
                        (desc_MB desca) Pa Qa MPI_COMM_WORLD) ia ja desca)
                  (slate_scalapack_submatrix n nrhs
                     (Matrix_fromScaLAPACK (desc_M descb) (desc_N descb) b (desc_LLD descb)
                        (desc_MB descb) Pb Qb MPI_COMM_WORLD) ib jb descb)
                  [Lookahead \<mapsto> 1, Target \<mapsto> Target_to_int c (slate_set_target c)], 1)])
       \<and> out = \<lparr>retval = None, info = Some 0\<rparr>"
    by (auto simp: slate_pposv_def call_driver_def slate_set_num_blas_threads_def logprintf_def
        Let_def ga gb split: option.splits if_splits)
  have h: "slate_planhe c normstr uplostr n a ia ja desca s = (Return out, s') \<Longrightarrow>
       (\<exists>uplo norm_kind. char2uplo c (str0 uplostr) = Some uplo
          \<and> char2norm c (str0 normstr) = Some norm_kind
          \<and> driver_calls s' = driver_calls s @
              [(norm norm_kind
                  (slate_scalapack_submatrix n n
                     (HermitianMatrix_fromScaLAPACK uplo (desc_N desca) a (desc_LLD desca)
                        (desc_MB desca) Pa Qa MPI_COMM_WORLD) ia ja desca)
                  [Target \<mapsto> Target_to_int c (slate_set_target c), Lookahead \<mapsto> 1], 1)]
          \<and> retval out = slate_driver c
                (norm norm_kind
                  (slate_scalapack_submatrix n n
                     (HermitianMatrix_fromScaLAPACK uplo (desc_N desca) a (desc_LLD desca)
                        (desc_MB desca) Pa Qa MPI_COMM_WORLD) ia ja desca)
                  [Target \<mapsto> Target_to_int c (slate_set_target c), Lookahead \<mapsto> 1])
          \<and> retval out \<noteq> None)
       \<and> info out = None"
    by (auto simp: slate_planhe_def call_driver_def slate_set_num_blas_threads_def logprintf_def
        Let_def ga split: option.splits if_splits)
  from p h show ?thesis by blast
qed


theorem scalapack_shims_call_driver_witness:
  "slate_pposv lib_ok ''U'' 8 2 100 1 1 desc8 200 1 1 desc8 four_threads
     = (Return \<lparr>retval = None, info = Some 0\<rparr>,
        snd (slate_pposv lib_ok ''U'' 8 2 100 1 1 desc8 200 1 1 desc8 four_threads))
   \<and> driver_calls (snd (slate_pposv lib_ok ''U'' 8 2 100 1 1 desc8 200 1 1 desc8 four_threads))
     = [(posv
          (slate_scalapack_submatrix 8 8
             (HermitianMatrix_fromScaLAPACK Upper 8 100 8 2 1 2 MPI_COMM_WORLD) 1 1 desc8)
          (slate_scalapack_submatrix 8 2
             (Matrix_fromScaLAPACK 8 8 200 8 2 1 2 MPI_COMM_WORLD) 1 1 desc8)
          [Lookahead \<mapsto> 1, Target \<mapsto> 84], 1)]
   \<and> slate_planhe lib_ok ''M'' ''U'' 8 100 1 1 desc8 four_threads
     = (Return \<lparr>retval = Some 5, info = None\<rparr>,
        snd (slate_planhe lib_ok ''M'' ''U'' 8 100 1 1 desc8 four_threads))
   \<and> driver_calls (snd (slate_planhe lib_ok ''M'' ''U'' 8 100 1 1 desc8 four_threads))
     = [(norm Norm_Max
          (slate_scalapack_submatrix 8 8
             (HermitianMatrix_fromScaLAPACK Upper 8 100 8 2 1 2 MPI_COMM_WORLD) 1 1 desc8)
          [Target \<mapsto> 84, Lookahead \<mapsto> 1], 1)]"
proof -
  have g: "Cblacs_gridinfo lib_ok (desc_CTXT desc8) = (1, 2, 0, 0)"
    by (simp add: lib_simps)
  have d: "desc_M desc8 = 8" "desc_N desc8 = 8" "desc_LLD desc8 = 8" "desc_MB desc8 = 2"
    by (simp_all add: desc8_def)
  have r1: "slate_pposv lib_ok ''U'' 8 2 100 1 1 desc8 200 1 1 desc8 four_threads
     = (Return \<lparr>retval = None, info = Some 0\<rparr>,
        snd (slate_pposv lib_ok ''U'' 8 2 100 1 1 desc8 200 1 1 desc8 four_threads))"
    by (simp add: shim_defs lib_simps)
  have r2: "slate_planhe lib_ok ''M'' ''U'' 8 100 1 1 desc8 four_threads
     = (Return \<lparr>retval = Some 5, info = None\<rparr>,
        snd (slate_planhe lib_ok ''M'' ''U'' 8 100 1 1 desc8 four_threads))"
    by (simp add: shim_defs lib_simps)
  note T = scalapack_shims_call_driver [OF g g, where s = four_threads]
  from T [THEN conjunct1, THEN mp, OF r1]
  have c1: "driver_calls (snd (slate_pposv lib_ok ''U'' 8 2 100 1 1 desc8 200 1 1 desc8 four_threads))
     = [(posv
          (slate_scalapack_submatrix 8 8
             (HermitianMatrix_fromScaLAPACK Upper 8 100 8 2 1 2 MPI_COMM_WORLD) 1 1 desc8)
          (slate_scalapack_submatrix 8 2
             (Matrix_fromScaLAPACK 8 8 200 8 2 1 2 MPI_COMM_WORLD) 1 1 desc8)
          [Lookahead \<mapsto> 1, Target \<mapsto> 84], 1)]"
    by (auto simp: lib_simps d four_threads_simps)
  from T [THEN conjunct2, THEN mp, OF r2]
  have c2: "driver_calls (snd (slate_planhe lib_ok ''M'' ''U'' 8 100 1 1 desc8 four_threads))
     = [(norm Norm_Max
          (slate_scalapack_submatrix 8 8
             (HermitianMatrix_fromScaLAPACK Upper 8 100 8 2 1 2 MPI_COMM_WORLD) 1 1 desc8)
          [Target \<mapsto> 84, Lookahead \<mapsto> 1], 1)]"
    by (auto simp: lib_simps d four_threads_simps)
  from r1 r2 c1 c2 show ?thesis by blast
qed

text \<open>
  C9 as stated fails: \<^verbatim>\<open>slate_planhe\<close> succeeds and hands back the norm, here 5,
  and no diagnostic integer; neither does \<^verbatim>\<open>slate_trmm\<close>.
\<close>

theorem slate_planhe_has_no_info:
  "fst (slate_planhe lib_ok ''M'' ''U'' 8 100 1 1 desc8 four_threads)
     = Return \<lparr>retval = Some 5, info = None\<rparr>
   \<and> fst (slate_trmm lib_ok ''L'' ''U'' ''N'' ''N'' 4 4 1 100 4 200 4 four_threads)
     = Return \<lparr>retval = None, info = None\<rparr>"
  by (simp add: shim_defs lib_simps four_threads_simps)

end
